theory Spec2Isabelle
  imports Complex_Main "HOL-Library.AList" "HOL-Library.Sublist"
begin

section \<open>Go strings\<close>

text \<open>
  A Go \<open>string\<close> is a sequence of bytes and \<open>len\<close> counts bytes, so a string is a
  \<open>char list\<close> here. Packages \<open>strings\<close> and \<open>unicode\<close> read a string as UTF-8: the
  functions that \<open>pkg/scraper/homes.go\<close> calls (\<open>ToLower\<close>, \<open>ToUpper\<close>, \<open>Title\<close>,
  \<open>TrimSpace\<close>) work on runes (code points), a byte that starts no well-formed
  encoding being read as the rune \<open>U+FFFD\<close> of width 1.
\<close>

type_synonym rune = int

definition is_digit :: "char \<Rightarrow> bool" where
  "is_digit c \<longleftrightarrow> 48 \<le> (of_char c :: nat) \<and> (of_char c :: nat) \<le> 57"

definition is_lower :: "char \<Rightarrow> bool" where
  "is_lower c \<longleftrightarrow> 97 \<le> (of_char c :: nat) \<and> (of_char c :: nat) \<le> 122"

definition is_upper :: "char \<Rightarrow> bool" where
  "is_upper c \<longleftrightarrow> 65 \<le> (of_char c :: nat) \<and> (of_char c :: nat) \<le> 90"

definition toLower_char :: "char \<Rightarrow> char" where
  "toLower_char c = (if is_upper c then char_of (of_char c + (32 :: nat)) else c)"

definition toUpper_char :: "char \<Rightarrow> char" where
  "toUpper_char c = (if is_lower c then char_of (of_char c - (32 :: nat)) else c)"

subsection \<open>Package utf8\<close>

definition RuneError :: rune where
  "RuneError = 65533"

definition is_cont :: "char \<Rightarrow> bool" where
  \<comment> \<open>a continuation byte, \<open>0x80\<close> to \<open>0xBF\<close>\<close>
  "is_cont c \<longleftrightarrow> 128 \<le> (of_char c :: int) \<and> (of_char c :: int) \<le> 191"

definition accept2 :: "int \<Rightarrow> char \<Rightarrow> bool" where
  \<comment> \<open>the second byte that the first byte \<open>b0\<close> of a sequence of three or four bytes
      accepts (\<open>acceptRanges\<close>): no overlong form, no surrogate, nothing above \<open>U+10FFFF\<close>\<close>
  "accept2 b0 c \<longleftrightarrow>
     (if b0 = 224 then 160 else if b0 = 240 then 144 else 128) \<le> (of_char c :: int) \<and>
     (of_char c :: int) \<le> (if b0 = 237 then 159 else if b0 = 244 then 143 else 191)"

definition DecodeRune :: "string \<Rightarrow> rune \<times> nat" where
  \<comment> \<open>\<open>utf8.DecodeRuneInString\<close>: the first rune and its width in bytes\<close>
  "DecodeRune s =
     (case s of
        [] \<Rightarrow> (RuneError, 0)
      | c0 # cs \<Rightarrow>
          (let b0 = (of_char c0 :: int)
           in if b0 < 128 then (b0, 1)
              else if 194 \<le> b0 \<and> b0 \<le> 223
              then (case cs of
                      c1 # _ \<Rightarrow>
                        if is_cont c1 then (b0 mod 32 * 64 + of_char c1 mod 64, 2)
                        else (RuneError, 1)
                    | _ \<Rightarrow> (RuneError, 1))
              else if 224 \<le> b0 \<and> b0 \<le> 239
              then (case cs of
                      c1 # c2 # _ \<Rightarrow>
                        if accept2 b0 c1 \<and> is_cont c2
                        then (b0 mod 16 * 4096 + of_char c1 mod 64 * 64 + of_char c2 mod 64, 3)
                        else (RuneError, 1)
                    | _ \<Rightarrow> (RuneError, 1))
              else if 240 \<le> b0 \<and> b0 \<le> 244
              then (case cs of
                      c1 # c2 # c3 # _ \<Rightarrow>
                        if accept2 b0 c1 \<and> is_cont c2 \<and> is_cont c3
                        then (b0 mod 8 * 262144 + of_char c1 mod 64 * 4096 +
                              of_char c2 mod 64 * 64 + of_char c3 mod 64, 4)
                        else (RuneError, 1)
                    | _ \<Rightarrow> (RuneError, 1))
              else (RuneError, 1)))"

definition RuneStart :: "char \<Rightarrow> bool" where
  "RuneStart c \<longleftrightarrow> \<not> is_cont c"

definition DecodeLastRune :: "string \<Rightarrow> rune \<times> nat" where
  \<comment> \<open>\<open>utf8.DecodeLastRuneInString\<close>: the last rune and its width. It decodes from the
      nearest byte among the three before the last one that starts a rune, and
      gives \<open>(RuneError, 1)\<close> unless that rune ends the string\<close>
  "DecodeLastRune s =
     (let n = length s
      in if n = 0 then (RuneError, 0)
         else if (of_char (s ! (n - 1)) :: int) < 128 then (of_char (s ! (n - 1)), 1)
         else (case List.find (\<lambda>k. RuneStart (s ! (n - 1 - k)))
                      (filter (\<lambda>k. k < n) [1, 2, 3]) of
                 None \<Rightarrow> (RuneError, 1)
               | Some k \<Rightarrow>
                   (let (r, w) = DecodeRune (drop (n - 1 - k) s)
                    in if w = k + 1 then (r, w) else (RuneError, 1))))"

definition EncodeRune :: "rune \<Rightarrow> string" where
  \<comment> \<open>\<open>utf8.AppendRune\<close>\<close>
  "EncodeRune r =
     (if r < 128 then [char_of r]
      else if r < 2048 then [char_of (192 + r div 64), char_of (128 + r mod 64)]
      else if 1114111 < r \<or> (55296 \<le> r \<and> r \<le> 57343)
      then [char_of (239 :: int), char_of (191 :: int), char_of (189 :: int)]
      else if r < 65536
      then [char_of (224 + r div 4096), char_of (128 + r div 64 mod 64), char_of (128 + r mod 64)]
      else [char_of (240 + r div 262144), char_of (128 + r div 4096 mod 64),
            char_of (128 + r div 64 mod 64), char_of (128 + r mod 64)])"

fun runes :: "string \<Rightarrow> rune list" where
  \<comment> \<open>the runes of \<open>for _, c := range s\<close>\<close>
  "runes [] = []"
| "runes (c # cs) =
     fst (DecodeRune (c # cs)) # runes (drop (snd (DecodeRune (c # cs)) - 1) cs)"

subsection \<open>Package unicode\<close>

text \<open>
  The case mappings of \<open>unicode.ToLower\<close>, \<open>unicode.ToUpper\<close> and \<open>unicode.ToTitle\<close>
  beyond ASCII are the simple case mappings of the Unicode character database
  (version 15.0.0, the one of Go 1.21 and later), from which Go generates
  \<open>unicode.CaseRanges\<close>. An entry \<open>(lo, hi, stride, delta)\<close> maps every
  \<open>stride\<close>-th code point from \<open>lo\<close> to \<open>hi\<close> to itself plus \<open>delta\<close>; a code
  point in no entry is mapped to itself.
\<close>

definition lowerRanges :: "(rune \<times> rune \<times> int \<times> int) list" where
  "lowerRanges =
    [(192, 214, 1, 32), (216, 222, 1, 32), (256, 302, 2, 1), (304, 304, 1, - 199),
     (306, 310, 2, 1), (313, 327, 2, 1), (330, 374, 2, 1), (376, 376, 1, - 121),
     (377, 381, 2, 1), (385, 385, 1, 210), (386, 388, 2, 1), (390, 390, 1, 206),
     (391, 391, 1, 1), (393, 394, 1, 205), (395, 395, 1, 1), (398, 398, 1, 79),
     (399, 399, 1, 202), (400, 400, 1, 203), (401, 401, 1, 1), (403, 403, 1, 205),
     (404, 404, 1, 207), (406, 406, 1, 211), (407, 407, 1, 209), (408, 408, 1, 1),
     (412, 412, 1, 211), (413, 413, 1, 213), (415, 415, 1, 214), (416, 420, 2, 1),
     (422, 422, 1, 218), (423, 423, 1, 1), (425, 425, 1, 218), (428, 428, 1, 1),
     (430, 430, 1, 218), (431, 431, 1, 1), (433, 434, 1, 217), (435, 437, 2, 1),
     (439, 439, 1, 219), (440, 440, 1, 1), (444, 444, 1, 1), (452, 452, 1, 2),
     (453, 453, 1, 1), (455, 455, 1, 2), (456, 456, 1, 1), (458, 458, 1, 2), (459, 475, 2, 1),
     (478, 494, 2, 1), (497, 497, 1, 2), (498, 500, 2, 1), (502, 502, 1, - 97),
     (503, 503, 1, - 56), (504, 542, 2, 1), (544, 544, 1, - 130), (546, 562, 2, 1),
     (570, 570, 1, 10795), (571, 571, 1, 1), (573, 573, 1, - 163), (574, 574, 1, 10792),
     (577, 577, 1, 1), (579, 579, 1, - 195), (580, 580, 1, 69), (581, 581, 1, 71),
     (582, 590, 2, 1), (880, 882, 2, 1), (886, 886, 1, 1), (895, 895, 1, 116),
     (902, 902, 1, 38), (904, 906, 1, 37), (908, 908, 1, 64), (910, 911, 1, 63),
     (913, 929, 1, 32), (931, 939, 1, 32), (975, 975, 1, 8), (984, 1006, 2, 1),
     (1012, 1012, 1, - 60), (1015, 1015, 1, 1), (1017, 1017, 1, - 7), (1018, 1018, 1, 1),
     (1021, 1023, 1, - 130), (1024, 1039, 1, 80), (1040, 1071, 1, 32), (1120, 1152, 2, 1),
     (1162, 1214, 2, 1), (1216, 1216, 1, 15), (1217, 1229, 2, 1), (1232, 1326, 2, 1),
     (1329, 1366, 1, 48), (4256, 4293, 1, 7264), (4295, 4295, 1, 7264), (4301, 4301, 1, 7264),
     (5024, 5103, 1, 38864), (5104, 5109, 1, 8), (7312, 7354, 1, - 3008),
     (7357, 7359, 1, - 3008), (7680, 7828, 2, 1), (7838, 7838, 1, - 7615), (7840, 7934, 2, 1),
     (7944, 7951, 1, - 8), (7960, 7965, 1, - 8), (7976, 7983, 1, - 8), (7992, 7999, 1, - 8),
     (8008, 8013, 1, - 8), (8025, 8031, 2, - 8), (8040, 8047, 1, - 8), (8072, 8079, 1, - 8),
     (8088, 8095, 1, - 8), (8104, 8111, 1, - 8), (8120, 8121, 1, - 8), (8122, 8123, 1, - 74),
     (8124, 8124, 1, - 9), (8136, 8139, 1, - 86), (8140, 8140, 1, - 9), (8152, 8153, 1, - 8),
     (8154, 8155, 1, - 100), (8168, 8169, 1, - 8), (8170, 8171, 1, - 112),
     (8172, 8172, 1, - 7), (8184, 8185, 1, - 128), (8186, 8187, 1, - 126),
     (8188, 8188, 1, - 9), (8486, 8486, 1, - 7517), (8490, 8490, 1, - 8383),
     (8491, 8491, 1, - 8262), (8498, 8498, 1, 28), (8544, 8559, 1, 16), (8579, 8579, 1, 1),
     (9398, 9423, 1, 26), (11264, 11311, 1, 48), (11360, 11360, 1, 1),
     (11362, 11362, 1, - 10743), (11363, 11363, 1, - 3814), (11364, 11364, 1, - 10727),
     (11367, 11371, 2, 1), (11373, 11373, 1, - 10780), (11374, 11374, 1, - 10749),
     (11375, 11375, 1, - 10783), (11376, 11376, 1, - 10782), (11378, 11378, 1, 1),
     (11381, 11381, 1, 1), (11390, 11391, 1, - 10815), (11392, 11490, 2, 1),
     (11499, 11501, 2, 1), (11506, 11506, 1, 1), (42560, 42604, 2, 1), (42624, 42650, 2, 1),
     (42786, 42798, 2, 1), (42802, 42862, 2, 1), (42873, 42875, 2, 1),
     (42877, 42877, 1, - 35332), (42878, 42886, 2, 1), (42891, 42891, 1, 1),
     (42893, 42893, 1, - 42280), (42896, 42898, 2, 1), (42902, 42920, 2, 1),
     (42922, 42922, 1, - 42308), (42923, 42923, 1, - 42319), (42924, 42924, 1, - 42315),
     (42925, 42925, 1, - 42305), (42926, 42926, 1, - 42308), (42928, 42928, 1, - 42258),
     (42929, 42929, 1, - 42282), (42930, 42930, 1, - 42261), (42931, 42931, 1, 928),
     (42932, 42946, 2, 1), (42948, 42948, 1, - 48), (42949, 42949, 1, - 42307),
     (42950, 42950, 1, - 35384), (42951, 42953, 2, 1), (42960, 42960, 1, 1),
     (42966, 42968, 2, 1), (42997, 42997, 1, 1), (65313, 65338, 1, 32), (66560, 66599, 1, 40),
     (66736, 66771, 1, 40), (66928, 66938, 1, 39), (66940, 66954, 1, 39),
     (66956, 66962, 1, 39), (66964, 66965, 1, 39), (68736, 68786, 1, 64),
     (71840, 71871, 1, 32), (93760, 93791, 1, 32), (125184, 125217, 1, 34)]"

definition upperRanges :: "(rune \<times> rune \<times> int \<times> int) list" where
  "upperRanges =
    [(181, 181, 1, 743), (224, 246, 1, - 32), (248, 254, 1, - 32), (255, 255, 1, 121),
     (257, 303, 2, - 1), (305, 305, 1, - 232), (307, 311, 2, - 1), (314, 328, 2, - 1),
     (331, 375, 2, - 1), (378, 382, 2, - 1), (383, 383, 1, - 300), (384, 384, 1, 195),
     (387, 389, 2, - 1), (392, 392, 1, - 1), (396, 396, 1, - 1), (402, 402, 1, - 1),
     (405, 405, 1, 97), (409, 409, 1, - 1), (410, 410, 1, 163), (414, 414, 1, 130),
     (417, 421, 2, - 1), (424, 424, 1, - 1), (429, 429, 1, - 1), (432, 432, 1, - 1),
     (436, 438, 2, - 1), (441, 441, 1, - 1), (445, 445, 1, - 1), (447, 447, 1, 56),
     (453, 453, 1, - 1), (454, 454, 1, - 2), (456, 456, 1, - 1), (457, 457, 1, - 2),
     (459, 459, 1, - 1), (460, 460, 1, - 2), (462, 476, 2, - 1), (477, 477, 1, - 79),
     (479, 495, 2, - 1), (498, 498, 1, - 1), (499, 499, 1, - 2), (501, 501, 1, - 1),
     (505, 543, 2, - 1), (547, 563, 2, - 1), (572, 572, 1, - 1), (575, 576, 1, 10815),
     (578, 578, 1, - 1), (583, 591, 2, - 1), (592, 592, 1, 10783), (593, 593, 1, 10780),
     (594, 594, 1, 10782), (595, 595, 1, - 210), (596, 596, 1, - 206), (598, 599, 1, - 205),
     (601, 601, 1, - 202), (603, 603, 1, - 203), (604, 604, 1, 42319), (608, 608, 1, - 205),
     (609, 609, 1, 42315), (611, 611, 1, - 207), (613, 613, 1, 42280), (614, 614, 1, 42308),
     (616, 616, 1, - 209), (617, 617, 1, - 211), (618, 618, 1, 42308), (619, 619, 1, 10743),
     (620, 620, 1, 42305), (623, 623, 1, - 211), (625, 625, 1, 10749), (626, 626, 1, - 213),
     (629, 629, 1, - 214), (637, 637, 1, 10727), (640, 640, 1, - 218), (642, 642, 1, 42307),
     (643, 643, 1, - 218), (647, 647, 1, 42282), (648, 648, 1, - 218), (649, 649, 1, - 69),
     (650, 651, 1, - 217), (652, 652, 1, - 71), (658, 658, 1, - 219), (669, 669, 1, 42261),
     (670, 670, 1, 42258), (837, 837, 1, 84), (881, 883, 2, - 1), (887, 887, 1, - 1),
     (891, 893, 1, 130), (940, 940, 1, - 38), (941, 943, 1, - 37), (945, 961, 1, - 32),
     (962, 962, 1, - 31), (963, 971, 1, - 32), (972, 972, 1, - 64), (973, 974, 1, - 63),
     (976, 976, 1, - 62), (977, 977, 1, - 57), (981, 981, 1, - 47), (982, 982, 1, - 54),
     (983, 983, 1, - 8), (985, 1007, 2, - 1), (1008, 1008, 1, - 86), (1009, 1009, 1, - 80),
     (1010, 1010, 1, 7), (1011, 1011, 1, - 116), (1013, 1013, 1, - 96), (1016, 1016, 1, - 1),
     (1019, 1019, 1, - 1), (1072, 1103, 1, - 32), (1104, 1119, 1, - 80), (1121, 1153, 2, - 1),
     (1163, 1215, 2, - 1), (1218, 1230, 2, - 1), (1231, 1231, 1, - 15), (1233, 1327, 2, - 1),
     (1377, 1414, 1, - 48), (4304, 4346, 1, 3008), (4349, 4351, 1, 3008), (5112, 5117, 1, - 8),
     (7296, 7296, 1, - 6254), (7297, 7297, 1, - 6253), (7298, 7298, 1, - 6244),
     (7299, 7300, 1, - 6242), (7301, 7301, 1, - 6243), (7302, 7302, 1, - 6236),
     (7303, 7303, 1, - 6181), (7304, 7304, 1, 35266), (7545, 7545, 1, 35332),
     (7549, 7549, 1, 3814), (7566, 7566, 1, 35384), (7681, 7829, 2, - 1),
     (7835, 7835, 1, - 59), (7841, 7935, 2, - 1), (7936, 7943, 1, 8), (7952, 7957, 1, 8),
     (7968, 7975, 1, 8), (7984, 7991, 1, 8), (8000, 8005, 1, 8), (8017, 8023, 2, 8),
     (8032, 8039, 1, 8), (8048, 8049, 1, 74), (8050, 8053, 1, 86), (8054, 8055, 1, 100),
     (8056, 8057, 1, 128), (8058, 8059, 1, 112), (8060, 8061, 1, 126), (8064, 8071, 1, 8),
     (8080, 8087, 1, 8), (8096, 8103, 1, 8), (8112, 8113, 1, 8), (8115, 8115, 1, 9),
     (8126, 8126, 1, - 7205), (8131, 8131, 1, 9), (8144, 8145, 1, 8), (8160, 8161, 1, 8),
     (8165, 8165, 1, 7), (8179, 8179, 1, 9), (8526, 8526, 1, - 28), (8560, 8575, 1, - 16),
     (8580, 8580, 1, - 1), (9424, 9449, 1, - 26), (11312, 11359, 1, - 48),
     (11361, 11361, 1, - 1), (11365, 11365, 1, - 10795), (11366, 11366, 1, - 10792),
     (11368, 11372, 2, - 1), (11379, 11379, 1, - 1), (11382, 11382, 1, - 1),
     (11393, 11491, 2, - 1), (11500, 11502, 2, - 1), (11507, 11507, 1, - 1),
     (11520, 11557, 1, - 7264), (11559, 11559, 1, - 7264), (11565, 11565, 1, - 7264),
     (42561, 42605, 2, - 1), (42625, 42651, 2, - 1), (42787, 42799, 2, - 1),
     (42803, 42863, 2, - 1), (42874, 42876, 2, - 1), (42879, 42887, 2, - 1),
     (42892, 42892, 1, - 1), (42897, 42899, 2, - 1), (42900, 42900, 1, 48),
     (42903, 42921, 2, - 1), (42933, 42947, 2, - 1), (42952, 42954, 2, - 1),
     (42961, 42961, 1, - 1), (42967, 42969, 2, - 1), (42998, 42998, 1, - 1),
     (43859, 43859, 1, - 928), (43888, 43967, 1, - 38864), (65345, 65370, 1, - 32),
     (66600, 66639, 1, - 40), (66776, 66811, 1, - 40), (66967, 66977, 1, - 39),
     (66979, 66993, 1, - 39), (66995, 67001, 1, - 39), (67003, 67004, 1, - 39),
     (68800, 68850, 1, - 64), (71872, 71903, 1, - 32), (93792, 93823, 1, - 32),
     (125218, 125251, 1, - 34)]"

definition titleRanges :: "(rune \<times> rune \<times> int \<times> int) list" where
  "titleRanges =
    [(181, 181, 1, 743), (224, 246, 1, - 32), (248, 254, 1, - 32), (255, 255, 1, 121),
     (257, 303, 2, - 1), (305, 305, 1, - 232), (307, 311, 2, - 1), (314, 328, 2, - 1),
     (331, 375, 2, - 1), (378, 382, 2, - 1), (383, 383, 1, - 300), (384, 384, 1, 195),
     (387, 389, 2, - 1), (392, 392, 1, - 1), (396, 396, 1, - 1), (402, 402, 1, - 1),
     (405, 405, 1, 97), (409, 409, 1, - 1), (410, 410, 1, 163), (414, 414, 1, 130),
     (417, 421, 2, - 1), (424, 424, 1, - 1), (429, 429, 1, - 1), (432, 432, 1, - 1),
     (436, 438, 2, - 1), (441, 441, 1, - 1), (445, 445, 1, - 1), (447, 447, 1, 56),
     (452, 452, 1, 1), (454, 454, 1, - 1), (455, 455, 1, 1), (457, 457, 1, - 1),
     (458, 458, 1, 1), (460, 476, 2, - 1), (477, 477, 1, - 79), (479, 495, 2, - 1),
     (497, 497, 1, 1), (499, 501, 2, - 1), (505, 543, 2, - 1), (547, 563, 2, - 1),
     (572, 572, 1, - 1), (575, 576, 1, 10815), (578, 578, 1, - 1), (583, 591, 2, - 1),
     (592, 592, 1, 10783), (593, 593, 1, 10780), (594, 594, 1, 10782), (595, 595, 1, - 210),
     (596, 596, 1, - 206), (598, 599, 1, - 205), (601, 601, 1, - 202), (603, 603, 1, - 203),
     (604, 604, 1, 42319), (608, 608, 1, - 205), (609, 609, 1, 42315), (611, 611, 1, - 207),
     (613, 613, 1, 42280), (614, 614, 1, 42308), (616, 616, 1, - 209), (617, 617, 1, - 211),
     (618, 618, 1, 42308), (619, 619, 1, 10743), (620, 620, 1, 42305), (623, 623, 1, - 211),
     (625, 625, 1, 10749), (626, 626, 1, - 213), (629, 629, 1, - 214), (637, 637, 1, 10727),
     (640, 640, 1, - 218), (642, 642, 1, 42307), (643, 643, 1, - 218), (647, 647, 1, 42282),
     (648, 648, 1, - 218), (649, 649, 1, - 69), (650, 651, 1, - 217), (652, 652, 1, - 71),
     (658, 658, 1, - 219), (669, 669, 1, 42261), (670, 670, 1, 42258), (837, 837, 1, 84),
     (881, 883, 2, - 1), (887, 887, 1, - 1), (891, 893, 1, 130), (940, 940, 1, - 38),
     (941, 943, 1, - 37), (945, 961, 1, - 32), (962, 962, 1, - 31), (963, 971, 1, - 32),
     (972, 972, 1, - 64), (973, 974, 1, - 63), (976, 976, 1, - 62), (977, 977, 1, - 57),
     (981, 981, 1, - 47), (982, 982, 1, - 54), (983, 983, 1, - 8), (985, 1007, 2, - 1),
     (1008, 1008, 1, - 86), (1009, 1009, 1, - 80), (1010, 1010, 1, 7), (1011, 1011, 1, - 116),
     (1013, 1013, 1, - 96), (1016, 1016, 1, - 1), (1019, 1019, 1, - 1), (1072, 1103, 1, - 32),
     (1104, 1119, 1, - 80), (1121, 1153, 2, - 1), (1163, 1215, 2, - 1), (1218, 1230, 2, - 1),
     (1231, 1231, 1, - 15), (1233, 1327, 2, - 1), (1377, 1414, 1, - 48), (5112, 5117, 1, - 8),
     (7296, 7296, 1, - 6254), (7297, 7297, 1, - 6253), (7298, 7298, 1, - 6244),
     (7299, 7300, 1, - 6242), (7301, 7301, 1, - 6243), (7302, 7302, 1, - 6236),
     (7303, 7303, 1, - 6181), (7304, 7304, 1, 35266), (7545, 7545, 1, 35332),
     (7549, 7549, 1, 3814), (7566, 7566, 1, 35384), (7681, 7829, 2, - 1),
     (7835, 7835, 1, - 59), (7841, 7935, 2, - 1), (7936, 7943, 1, 8), (7952, 7957, 1, 8),
     (7968, 7975, 1, 8), (7984, 7991, 1, 8), (8000, 8005, 1, 8), (8017, 8023, 2, 8),
     (8032, 8039, 1, 8), (8048, 8049, 1, 74), (8050, 8053, 1, 86), (8054, 8055, 1, 100),
     (8056, 8057, 1, 128), (8058, 8059, 1, 112), (8060, 8061, 1, 126), (8064, 8071, 1, 8),
     (8080, 8087, 1, 8), (8096, 8103, 1, 8), (8112, 8113, 1, 8), (8115, 8115, 1, 9),
     (8126, 8126, 1, - 7205), (8131, 8131, 1, 9), (8144, 8145, 1, 8), (8160, 8161, 1, 8),
     (8165, 8165, 1, 7), (8179, 8179, 1, 9), (8526, 8526, 1, - 28), (8560, 8575, 1, - 16),
     (8580, 8580, 1, - 1), (9424, 9449, 1, - 26), (11312, 11359, 1, - 48),
     (11361, 11361, 1, - 1), (11365, 11365, 1, - 10795), (11366, 11366, 1, - 10792),
     (11368, 11372, 2, - 1), (11379, 11379, 1, - 1), (11382, 11382, 1, - 1),
     (11393, 11491, 2, - 1), (11500, 11502, 2, - 1), (11507, 11507, 1, - 1),
     (11520, 11557, 1, - 7264), (11559, 11559, 1, - 7264), (11565, 11565, 1, - 7264),
     (42561, 42605, 2, - 1), (42625, 42651, 2, - 1), (42787, 42799, 2, - 1),
     (42803, 42863, 2, - 1), (42874, 42876, 2, - 1), (42879, 42887, 2, - 1),
     (42892, 42892, 1, - 1), (42897, 42899, 2, - 1), (42900, 42900, 1, 48),
     (42903, 42921, 2, - 1), (42933, 42947, 2, - 1), (42952, 42954, 2, - 1),
     (42961, 42961, 1, - 1), (42967, 42969, 2, - 1), (42998, 42998, 1, - 1),
     (43859, 43859, 1, - 928), (43888, 43967, 1, - 38864), (65345, 65370, 1, - 32),
     (66600, 66639, 1, - 40), (66776, 66811, 1, - 40), (66967, 66977, 1, - 39),
     (66979, 66993, 1, - 39), (66995, 67001, 1, - 39), (67003, 67004, 1, - 39),
     (68800, 68850, 1, - 64), (71872, 71903, 1, - 32), (93792, 93823, 1, - 32),
     (125218, 125251, 1, - 34)]"

fun to_case :: "(rune \<times> rune \<times> int \<times> int) list \<Rightarrow> rune \<Rightarrow> rune" where
  "to_case [] r = r"
| "to_case ((lo, hi, stride, delta) # ranges) r =
     (if lo \<le> r \<and> r \<le> hi \<and> (r - lo) mod stride = 0 then r + delta
      else to_case ranges r)"

definition unicode_ToLower :: "rune \<Rightarrow> rune" where
  "unicode_ToLower r =
     (if r \<le> 127 then (if 65 \<le> r \<and> r \<le> 90 then r + 32 else r) else to_case lowerRanges r)"

definition unicode_ToUpper :: "rune \<Rightarrow> rune" where
  "unicode_ToUpper r =
     (if r \<le> 127 then (if 97 \<le> r \<and> r \<le> 122 then r - 32 else r) else to_case upperRanges r)"

definition unicode_ToTitle :: "rune \<Rightarrow> rune" where
  "unicode_ToTitle r =
     (if r \<le> 127 then (if 97 \<le> r \<and> r \<le> 122 then r - 32 else r) else to_case titleRanges r)"

definition IsSpace :: "rune \<Rightarrow> bool" where
  \<comment> \<open>\<open>unicode.IsSpace\<close>: tab, line feed, vertical tab, form feed, carriage return,
      space, \<open>U+0085\<close>, \<open>U+00A0\<close>, and beyond Latin-1 the property \<open>White_Space\<close>\<close>
  "IsSpace r \<longleftrightarrow>
     (9 \<le> r \<and> r \<le> 13) \<or> r = 32 \<or> r = 133 \<or> r = 160 \<or> r = 5760 \<or>
     (8192 \<le> r \<and> r \<le> 8202) \<or> r = 8232 \<or> r = 8233 \<or> r = 8239 \<or> r = 8287 \<or> r = 12288"

subsection \<open>Package strings\<close>

definition strings_Map :: "(rune \<Rightarrow> rune) \<Rightarrow> string \<Rightarrow> string" where
  \<comment> \<open>\<open>strings.Map\<close> for a mapping that drops no rune: every rune is mapped and encoded
      again, so a byte that is not UTF-8 becomes the three bytes of \<open>U+FFFD\<close>\<close>
  "strings_Map mapping s = concat (map (\<lambda>r. EncodeRune (mapping r)) (runes s))"

definition is_ascii :: "char \<Rightarrow> bool" where
  "is_ascii c \<longleftrightarrow> (of_char c :: int) < 128"

definition ToLower :: "string \<Rightarrow> string" where
  \<comment> \<open>\<open>strings.ToLower\<close>: byte by byte on ASCII text, \<open>Map(unicode.ToLower, s)\<close> otherwise\<close>
  "ToLower s =
     (if list_all is_ascii s then map toLower_char s else strings_Map unicode_ToLower s)"

definition ToUpper :: "string \<Rightarrow> string" where
  \<comment> \<open>\<open>strings.ToUpper\<close>: byte by byte on ASCII text, \<open>Map(unicode.ToUpper, s)\<close> otherwise\<close>
  "ToUpper s =
     (if list_all is_ascii s then map toUpper_char s else strings_Map unicode_ToUpper s)"

fun TrimLeft :: "string \<Rightarrow> string" where
  \<comment> \<open>\<open>strings.TrimLeftFunc(s, unicode.IsSpace)\<close>\<close>
  "TrimLeft [] = []"
| "TrimLeft (c # cs) =
     (if IsSpace (fst (DecodeRune (c # cs)))
      then TrimLeft (drop (snd (DecodeRune (c # cs)) - 1) cs) else c # cs)"

fun TrimRight_rev :: "string \<Rightarrow> string" where
  \<comment> \<open>\<open>strings.TrimRightFunc(s, unicode.IsSpace)\<close>, on the string read from its end\<close>
  "TrimRight_rev [] = []"
| "TrimRight_rev (c # cs) =
     (if IsSpace (fst (DecodeLastRune (rev (c # cs))))
      then TrimRight_rev (drop (snd (DecodeLastRune (rev (c # cs))) - 1) cs) else c # cs)"

definition TrimSpace :: "string \<Rightarrow> string" where
  \<comment> \<open>\<open>strings.TrimSpace\<close>: the white space runes at both ends removed\<close>
  "TrimSpace s = rev (TrimRight_rev (rev (TrimLeft s)))"

fun Split :: "string \<Rightarrow> char \<Rightarrow> string list" where
  \<comment> \<open>\<open>strings.Split(s, sep)\<close> for a separator of one byte: never the empty list\<close>
  "Split [] sep = [[]]"
| "Split (x # xs) sep =
     (if x = sep then [] # Split xs sep
      else (case Split xs sep of [] \<Rightarrow> [[x]] | w # ws \<Rightarrow> (x # w) # ws))"

fun Join :: "string list \<Rightarrow> string \<Rightarrow> string" where
  "Join [] sep = []"
| "Join [w] sep = w"
| "Join (w # ws) sep = w @ sep @ Join ws sep"

fun Index :: "string \<Rightarrow> string \<Rightarrow> nat option" where
  \<comment> \<open>\<open>strings.Index\<close>: the offset of the first occurrence, \<open>None\<close> for Go's \<open>-1\<close>\<close>
  "Index [] sub = (if sub = [] then Some 0 else None)"
| "Index (x # xs) sub =
     (if prefix sub (x # xs) then Some 0 else map_option Suc (Index xs sub))"

definition Contains :: "string \<Rightarrow> string \<Rightarrow> bool" where
  "Contains s sub \<longleftrightarrow> Index s sub \<noteq> None"

fun LastIndex :: "string \<Rightarrow> char \<Rightarrow> nat option" where
  \<comment> \<open>\<open>strings.LastIndex(s, sep)\<close> for a separator of one byte\<close>
  "LastIndex [] sep = None"
| "LastIndex (x # xs) sep =
     (case LastIndex xs sep of
        Some i \<Rightarrow> Some (Suc i)
      | None \<Rightarrow> if x = sep then Some 0 else None)"

definition ReplaceAll :: "string \<Rightarrow> char \<Rightarrow> string \<Rightarrow> string" where
  \<comment> \<open>\<open>strings.ReplaceAll(s, old, new)\<close> for an \<open>old\<close> of one byte\<close>
  "ReplaceAll s old new = concat (map (\<lambda>c. if c = old then new else [c]) s)"

definition isSeparator :: "rune \<Rightarrow> bool" where
  \<comment> \<open>\<open>strings.isSeparator\<close>: ASCII letters, digits and underscore do not separate, every
      other ASCII rune does; beyond ASCII a letter or digit does not separate and
      any other rune separates when it is white space, and no white space rune is
      a letter or a digit\<close>
  "isSeparator r \<longleftrightarrow>
     (if r \<le> 127
      then \<not> ((48 \<le> r \<and> r \<le> 57) \<or> (97 \<le> r \<and> r \<le> 122) \<or> (65 \<le> r \<and> r \<le> 90) \<or> r = 95)
      else IsSpace r)"

fun Title_from :: "rune \<Rightarrow> rune list \<Rightarrow> rune list" where
  \<comment> \<open>the closure of \<open>strings.Title\<close>, \<open>prev\<close> the rune before\<close>
  "Title_from prev [] = []"
| "Title_from prev (r # rs) =
     (if isSeparator prev then unicode_ToTitle r else r) # Title_from r rs"

definition Title :: "string \<Rightarrow> string" where
  \<comment> \<open>\<open>strings.Title\<close>: \<open>strings.Map\<close> with the first letter of every word in title case\<close>
  "Title s = concat (map EncodeRune (Title_from 32 (runes s)))"

definition substr :: "string \<Rightarrow> nat \<Rightarrow> nat \<Rightarrow> string" where
  \<comment> \<open>the slice \<open>s[b:e]\<close> for \<open>b \<le> e \<le> len(s)\<close>\<close>
  "substr s b e = take (e - b) (drop b s)"

fun digit_char :: "nat \<Rightarrow> char" where
  "digit_char n = ''0123456789'' ! (n mod 10)"

fun string_of_nat :: "nat \<Rightarrow> string" where
  \<comment> \<open>the verb \<open>%d\<close> of \<open>fmt\<close> on a number that is not negative\<close>
  "string_of_nat n =
     (if n < 10 then [digit_char n] else string_of_nat (n div 10) @ [digit_char n])"

section \<open>Package strconv\<close>

definition digits_value :: "string \<Rightarrow> int" where
  "digits_value ds = foldl (\<lambda>acc c. 10 * acc + (of_char c - 48)) 0 ds"

definition maxInt :: int where
  "maxInt = 9223372036854775807"

definition Atoi :: "string \<Rightarrow> int" where
  \<comment> \<open>\<open>v, _ := strconv.Atoi(s)\<close> with a 64-bit \<open>int\<close>: an optional sign and decimal
      digits; 0 on a syntax error, the nearest bound when out of range\<close>
  "Atoi s =
     (let (neg, ds) = (case s of
                         [] \<Rightarrow> (False, [])
                       | c # r \<Rightarrow> if c = CHR ''-'' then (True, r)
                                  else if c = CHR ''+'' then (False, r) else (False, s))
      in if ds = [] \<or> \<not> list_all is_digit ds then 0
         else if neg then max (- maxInt - 1) (- digits_value ds)
         else min maxInt (digits_value ds))"

text \<open>
  A \<open>float64\<close> is a sign with a magnitude, or an infinity (no computation of
  \<open>homes.go\<close> gives a NaN). The finite magnitudes are the numbers \<open>m * 2 ^ e\<close> with
  \<open>m < 2 ^ 53\<close> and \<open>- 1074 \<le> e \<le> 971\<close>. The zero value of Go is \<open>Finite False 0\<close>.
\<close>

datatype float64 = Finite bool real | Infinite bool

definition float64_zero :: float64 where
  "float64_zero = Finite False 0"

fun float64_neg :: "float64 \<Rightarrow> float64" where
  \<comment> \<open>the unary minus of Go on a \<open>float64\<close>: the sign is flipped, also on zero\<close>
  "float64_neg (Finite negative m) = Finite (\<not> negative) m"
| "float64_neg (Infinite negative) = Infinite (\<not> negative)"

definition pow2 :: "int \<Rightarrow> real" where
  "pow2 e = (if 0 \<le> e then 2 ^ nat e else 1 / 2 ^ nat (- e))"

function bits_Len :: "int \<Rightarrow> int" where
  \<comment> \<open>the number of bits of \<open>n\<close>\<close>
  "bits_Len n = (if n \<le> 0 then 0 else 1 + bits_Len (n div 2))"
  by pat_completeness auto

termination bits_Len
  by (relation "measure nat") auto

declare bits_Len.simps [simp del]

definition round_even_div :: "int \<Rightarrow> int \<Rightarrow> int" where
  \<comment> \<open>the integer nearest to \<open>num / den\<close> for a positive \<open>den\<close>, the even one of two that
      are equally near\<close>
  "round_even_div num den =
     (let f = num div den; r = num mod den
      in if 2 * r < den \<or> (2 * r = den \<and> even f) then f else f + 1)"

definition float64_of :: "bool \<Rightarrow> int \<Rightarrow> int \<Rightarrow> float64" where
  \<comment> \<open>the \<open>float64\<close> nearest to \<open>n / d\<close> with the given sign, as IEEE 754 rounds (to
      nearest, ties to even): \<open>l\<close> is the binary exponent of \<open>n / d\<close>, \<open>e\<close> the exponent
      of the last bit of the significand \<open>m\<close>, and a result of \<open>2 ^ 1024\<close> or more is
      an infinity. A power \<open>2 ^ nat k\<close> is 1 for a negative \<open>k\<close>.\<close>
  "float64_of negative n d =
     (let g = bits_Len n - bits_Len d;
          l = (if d * 2 ^ nat g \<le> n * 2 ^ nat (- g) then g else g - 1);
          e = max (l - 52) (- 1074);
          m = round_even_div (n * 2 ^ nat (- e)) (d * 2 ^ nat e)
      in if 0 \<le> e \<and> 2 ^ 1024 \<le> m * 2 ^ nat e then Infinite negative
         else Finite negative (of_int m * pow2 e))"

definition ParseFloat :: "string \<Rightarrow> float64" where
  \<comment> \<open>\<open>v, _ := strconv.ParseFloat(s, 64)\<close> on the decimal numerals the parsers pass to
      it (an optional minus sign, digits, an optional point and fraction): the
      \<open>float64\<close> nearest to the number the numeral denotes, an infinity when that
      is out of range (Go then also returns an error, which the callers drop).\<close>
  "ParseFloat s =
     (let (negative, body) = (case s of
                           [] \<Rightarrow> (False, [])
                         | c # r \<Rightarrow> if c = CHR ''-'' then (True, r) else (False, s));
          ip = takeWhile is_digit body;
          rest = dropWhile is_digit body;
          fp = (case rest of [] \<Rightarrow> [] | c # r \<Rightarrow> r)
      in if ip = [] \<or> (rest \<noteq> [] \<and> hd rest \<noteq> CHR ''.'') \<or> \<not> list_all is_digit fp
         then float64_zero
         else float64_of negative (digits_value (ip @ fp)) (10 ^ length fp))"

section \<open>Package regexp\<close>

text \<open>
  Go's \<open>regexp\<close> returns the leftmost match and, among the matches that start there,
  the one a backtracking search finds first. The matcher below is that search: for a
  pattern and a cursor it lists every way the pattern can match at the cursor, in the
  order backtracking tries them, and the match is the head of the first list that is
  not empty. A cursor is the byte before the position, the offset, and the text from
  the position on. Patterns are syntax trees; a character class is a list of byte
  ranges, negated or not. The matcher works on bytes, which is Go's behaviour on
  ASCII text. No pattern of the source repeats a body that can match the empty
  string; an iteration that consumes nothing is not repeated.
\<close>

datatype regex =
    Chr char
  | Cls bool "(char \<times> char) list"
  | Seq regex regex
  | Alt regex regex
  | Rep regex nat "nat option" bool
  | Cap nat regex
  | WordBoundary
  | Empty

type_synonym cursor = "char option \<times> nat \<times> string"

type_synonym caps = "(nat \<times> nat \<times> nat) list"

definition in_ranges :: "char \<Rightarrow> (char \<times> char) list \<Rightarrow> bool" where
  "in_ranges c rs =
     list_ex (\<lambda>(lo, hi). (of_char lo :: nat) \<le> of_char c \<and> (of_char c :: nat) \<le> of_char hi) rs"

definition is_word_char :: "char \<Rightarrow> bool" where
  "is_word_char c =
     in_ranges c [(CHR ''0'', CHR ''9''), (CHR ''A'', CHR ''Z''), (CHR ''a'', CHR ''z''),
                  (CHR ''_'', CHR ''_'')]"

fun at_word_boundary :: "cursor \<Rightarrow> bool" where
  "at_word_boundary (prev, n, rest) =
     ((case prev of None \<Rightarrow> False | Some c \<Rightarrow> is_word_char c) \<noteq>
      (case rest of [] \<Rightarrow> False | c # _ \<Rightarrow> is_word_char c))"

fun rep_ms :: "(cursor \<Rightarrow> caps \<Rightarrow> (cursor \<times> caps) list) \<Rightarrow> nat \<Rightarrow> nat option \<Rightarrow> bool \<Rightarrow> nat
    \<Rightarrow> cursor \<Rightarrow> caps \<Rightarrow> (cursor \<times> caps) list" where
  \<comment> \<open>\<open>lo\<close> iterations still required, \<open>hi\<close> still allowed; the fifth argument bounds
      the number of iterations and is given as the length of the text left plus \<open>lo\<close>\<close>
  "rep_ms f lo hi greedy 0 cur cs = (if lo = 0 then [(cur, cs)] else [])"
| "rep_ms f lo hi greedy (Suc fuel) cur cs =
     (let stop = (if lo = 0 then [(cur, cs)] else []);
          more = (if hi = Some 0 then []
                  else concat (map (\<lambda>(cur', cs').
                         if lo = 0 \<and> fst (snd cur') = fst (snd cur) then []
                         else rep_ms f (lo - 1) (map_option (\<lambda>h. h - 1) hi) greedy fuel cur' cs')
                       (f cur cs)))
      in if greedy then more @ stop else stop @ more)"

fun ms :: "regex \<Rightarrow> cursor \<Rightarrow> caps \<Rightarrow> (cursor \<times> caps) list" where
  "ms (Chr c) (prev, n, rest) cs =
     (case rest of [] \<Rightarrow> [] | x # xs \<Rightarrow> if x = c then [((Some x, Suc n, xs), cs)] else [])"
| "ms (Cls neg rs) (prev, n, rest) cs =
     (case rest of
        [] \<Rightarrow> []
      | x # xs \<Rightarrow> if in_ranges x rs \<noteq> neg then [((Some x, Suc n, xs), cs)] else [])"
| "ms (Seq a b) cur cs = concat (map (\<lambda>(cur', cs'). ms b cur' cs') (ms a cur cs))"
| "ms (Alt a b) cur cs = ms a cur cs @ ms b cur cs"
| "ms (Rep r lo hi greedy) (prev, n, rest) cs =
     rep_ms (\<lambda>cur' cs'. ms r cur' cs') lo hi greedy (length rest + lo) (prev, n, rest) cs"
| "ms (Cap k r) (prev, n, rest) cs =
     map (\<lambda>((prev', n', rest'), cs'). ((prev', n', rest'), (k, n, n') # cs'))
         (ms r (prev, n, rest) cs)"
| "ms WordBoundary cur cs = (if at_word_boundary cur then [(cur, cs)] else [])"
| "ms Empty cur cs = [(cur, cs)]"

fun search :: "regex \<Rightarrow> cursor \<Rightarrow> (nat \<times> nat \<times> caps) option" where
  \<comment> \<open>the leftmost match at or after the cursor: its start, its end, its groups\<close>
  "search r (prev, n, []) =
     (case ms r (prev, n, []) [] of
        [] \<Rightarrow> None
      | ((_, e, _), cs') # _ \<Rightarrow> Some (n, e, cs'))"
| "search r (prev, n, x # xs) =
     (case ms r (prev, n, x # xs) [] of
        [] \<Rightarrow> search r (Some x, Suc n, xs)
      | ((_, e, _), cs') # _ \<Rightarrow> Some (n, e, cs'))"

fun find_all :: "regex \<Rightarrow> nat \<Rightarrow> nat option \<Rightarrow> cursor \<Rightarrow> (nat \<times> nat) list" where
  \<comment> \<open>the successive matches that do not overlap: positions before \<open>skip\<close> lie inside
      the previous match; an empty match right at the end of the previous match is
      dropped\<close>
  "find_all r skip prevEnd (prev, n, []) =
     (if n < skip then []
      else (case ms r (prev, n, []) [] of
              [] \<Rightarrow> []
            | ((_, e, _), _) # _ \<Rightarrow> if prevEnd = Some n then [] else [(n, e)]))"
| "find_all r skip prevEnd (prev, n, x # xs) =
     (if n < skip then find_all r skip prevEnd (Some x, Suc n, xs)
      else (case ms r (prev, n, x # xs) [] of
              [] \<Rightarrow> find_all r skip prevEnd (Some x, Suc n, xs)
            | ((_, e, _), _) # _ \<Rightarrow>
                (if e = n \<and> prevEnd = Some n then [] else [(n, e)]) @
                find_all r e (Some e) (Some x, Suc n, xs)))"

definition FindString :: "regex \<Rightarrow> string \<Rightarrow> string" where
  "FindString r s = (case search r (None, 0, s) of None \<Rightarrow> [] | Some (b, e, cs) \<Rightarrow> substr s b e)"

definition FindStringSubmatch :: "regex \<Rightarrow> nat \<Rightarrow> string \<Rightarrow> string list" where
  \<comment> \<open>the match and its groups 1 to \<open>ngroups\<close> (the number of groups of the pattern);
      the empty list for Go's \<open>nil\<close>, the empty string for a group that took no part\<close>
  "FindStringSubmatch r ngroups s =
     (case search r (None, 0, s) of
        None \<Rightarrow> []
      | Some (b, e, cs) \<Rightarrow>
          substr s b e #
          map (\<lambda>k. case map_of cs k of None \<Rightarrow> [] | Some (b', e') \<Rightarrow> substr s b' e')
              [1..<Suc ngroups])"

definition FindAllString :: "regex \<Rightarrow> string \<Rightarrow> string list" where
  \<comment> \<open>\<open>re.FindAllString(s, -1)\<close>\<close>
  "FindAllString r s = map (\<lambda>(b, e). substr s b e) (find_all r 0 None (None, 0, s))"

definition lits :: "string \<Rightarrow> regex" where
  "lits s = foldr (\<lambda>c r. Seq (Chr c) r) s Empty"

definition seqs :: "regex list \<Rightarrow> regex" where
  "seqs rs = foldr Seq rs Empty"

definition alts :: "regex \<Rightarrow> regex list \<Rightarrow> regex" where
  "alts r rs = foldl Alt r rs"

definition plus :: "regex \<Rightarrow> regex" where
  "plus r = Rep r 1 None True"

definition star :: "regex \<Rightarrow> regex" where
  "star r = Rep r 0 None True"

definition opt :: "regex \<Rightarrow> regex" where
  "opt r = Rep r 0 (Some 1) True"

definition times :: "nat \<Rightarrow> regex \<Rightarrow> regex" where
  "times k r = Rep r k (Some k) True"

definition rx_digit :: regex where
  \<comment> \<open>\<open>\d\<close> and \<open>[0-9]\<close>\<close>
  "rx_digit = Cls False [(CHR ''0'', CHR ''9'')]"

definition rx_space :: regex where
  \<comment> \<open>\<open>\s\<close>: tab, line feed, form feed, carriage return, space\<close>
  "rx_space = Cls False [(CHR 0x09, CHR 0x0A), (CHR 0x0C, CHR 0x0D), (CHR '' '', CHR '' '')]"

definition rx_any :: regex where
  \<comment> \<open>\<open>.\<close>: any byte but the line feed\<close>
  "rx_any = Cls True [(CHR 0x0A, CHR 0x0A)]"

definition rx_digit_comma :: regex where
  \<comment> \<open>\<open>[0-9,]\<close>\<close>
  "rx_digit_comma = Cls False [(CHR ''0'', CHR ''9''), (CHR '','', CHR '','')]"

definition rx_digit_dot :: regex where
  \<comment> \<open>\<open>[0-9.]\<close>\<close>
  "rx_digit_dot = Cls False [(CHR ''0'', CHR ''9''), (CHR ''.'', CHR ''.'')]"

section \<open>Identifier synthesis\<close>

text \<open>
  \<open>generatePropertyID\<close> (homes.go, lines 582-594). \<open>ReplaceAllString\<close> with the
  pattern \<open>[^a-z0-9]+\<close> and the empty replacement deletes every maximal run of
  bytes outside \<open>a\<close>-\<open>z\<close>, \<open>0\<close>-\<open>9\<close>: it keeps exactly the bytes of the class, in order.
\<close>

definition is_id_char :: "char \<Rightarrow> bool" where
  "is_id_char c \<longleftrightarrow> is_lower c \<or> is_digit c"

definition cleaned_id :: "string \<Rightarrow> string \<Rightarrow> string" where
  "cleaned_id address city =
     (let combined = ToLower (address @ city);
          cleaned = filter is_id_char combined
      in if length cleaned > 25 then take 25 cleaned else cleaned)"

definition generatePropertyID :: "string \<Rightarrow> string \<Rightarrow> string" where
  "generatePropertyID address city =
     (let cleaned = cleaned_id address city;
          cleaned = (if cleaned = [] then ''unknown'' else cleaned)
      in ''prop_'' @ cleaned)"

text \<open>
  The contract of the identifier synthesizer in the words of the specification:
  lower-case and concatenate, strip everything except lowercase letters and digits,
  truncate to at most 25 characters, substitute the sentinel when nothing is left,
  prefix with the constant tag.
\<close>

definition id_spec :: "string \<Rightarrow> string \<Rightarrow> string" where
  "id_spec address city =
     (let stripped = take 25 (filter (\<lambda>c. is_lower c \<or> is_digit c)
                                 (ToLower (address @ city)))
      in ''prop_'' @ (if stripped = [] then ''unknown'' else stripped))"

section \<open>Records\<close>

text \<open>
  \<open>Property\<close> and \<open>MarketStats\<close> (homes.go, lines 22-83). Go's \<open>int\<close> is a 64-bit
  integer; every integer field is written from \<open>Atoi\<close>, which stays within the 64-bit
  range, or from a quotient of two such values. A \<open>float64\<close> field holds a
  \<open>float64\<close> as package \<open>strconv\<close> above defines it. A field that was never assigned holds
  Go's zero value.
\<close>

record Property =
  ID :: string
  Address :: string
  City :: string
  State :: string
  ZipCode :: string
  Price :: int
  Bedrooms :: int
  Bathrooms :: float64
  SquareFeet :: int
  LotSize :: float64
  PricePerSqFt :: int
  YearBuilt :: int
  PropertyType :: string
  Status :: string
  SoldDate :: string
  DaysOnMarket :: int
  Description :: string
  Features :: "string list"
  Agent :: string
  Brokerage :: string
  PropertyCondition :: string
  SchoolDistrict :: string
  ElementarySchool :: string
  MiddleSchool :: string
  HighSchool :: string
  SchoolRatings :: "string list"
  Neighborhood :: string
  PropertyTax :: string
  HOAFees :: string
  ParkingSpaces :: int
  Garage :: string
  Heating :: string
  Cooling :: string
  Flooring :: "string list"
  Appliances :: "string list"
  LastRenovated :: string
  PriceHistory :: "string list"
  NearbyComparables :: "string list"
  WalkScore :: string
  TransitScore :: string
  DistanceToBeach :: string
  DistanceToDowntown :: string
  FloodZone :: string
  HomeInsurance :: string

definition zero_Property :: Property where
  "zero_Property =
     \<lparr>ID = [], Address = [], City = [], State = [], ZipCode = [], Price = 0, Bedrooms = 0,
      Bathrooms = float64_zero, SquareFeet = 0, LotSize = float64_zero, PricePerSqFt = 0,
      YearBuilt = 0,
      PropertyType = [], Status = [], SoldDate = [], DaysOnMarket = 0, Description = [],
      Features = [], Agent = [], Brokerage = [], PropertyCondition = [],
      SchoolDistrict = [], ElementarySchool = [], MiddleSchool = [], HighSchool = [],
      SchoolRatings = [], Neighborhood = [], PropertyTax = [], HOAFees = [],
      ParkingSpaces = 0, Garage = [], Heating = [], Cooling = [], Flooring = [],
      Appliances = [], LastRenovated = [], PriceHistory = [], NearbyComparables = [],
      WalkScore = [], TransitScore = [], DistanceToBeach = [], DistanceToDowntown = [],
      FloodZone = [], HomeInsurance = []\<rparr>"

record MarketStats =
  Area :: string
  MedianSalePrice :: int
  MedianSingleFamilyPrice :: int
  MedianTownhousePrice :: int
  AveragePricePerSqFt :: int
  HomesForSale :: int
  SalesLast12Months :: int
  AverageDaysOnMarket :: int
  MonthsOfSupply :: float64
  YearOverYearChange :: float64
  Timestamp :: string

section \<open>The HTTP client and the document\<close>

text \<open>
  The scraper reads the world through \<open>http.NewRequest\<close>, \<open>client.Do\<close> and
  \<open>goquery.NewDocumentFromReader\<close>. A client is modelled by what these give for a
  URL: the request cannot be built, the transport fails, or a response arrives with a
  status code, a status line and a body that parses into a document or does not. A
  document is modelled by what the scraper selects from it: its flattened text and,
  per selector, the texts of the selected elements in document order.
\<close>

record Document =
  Text :: string
  housing_trends_rows :: "(string \<times> string) list"
  meta_description :: "string option list"
  li_feature_amenity :: "string list"
  remarks :: "string list"
  feature_list_items :: "string list"
  agent_brokerage :: "string list"

datatype Body = Unparseable string | Parsed Document

datatype Outcome =
    RequestError string
  | TransportError string
  | Response nat string Body

type_synonym Client = "string \<Rightarrow> Outcome"

type_synonym error = string

section \<open>Field parsers\<close>

text \<open>\<open>parsePrice\<close>, \<open>parseInt\<close>, \<open>parseFloat\<close>, \<open>parsePercent\<close> (homes.go, lines 536-580).\<close>

definition parsePrice :: "string \<Rightarrow> int" where
  "parsePrice s =
     (let match = FindString (plus rx_digit_comma) s
      in if match = [] then 0
         else (let cleaned = ReplaceAll match (CHR '','') [] in Atoi cleaned))"

definition parseInt :: "string \<Rightarrow> int" where
  "parseInt s =
     (let match = FindString (plus rx_digit) s
      in if match = [] then 0 else Atoi match)"

definition parseFloat :: "string \<Rightarrow> float64" where
  \<comment> \<open>pattern \<open>[0-9]+\.?[0-9]*\<close>\<close>
  "parseFloat s =
     (let match = FindString (seqs [plus rx_digit, opt (Chr (CHR ''.'')), star rx_digit]) s
      in if match = [] then float64_zero else ParseFloat match)"

definition percentRegex :: regex where
  \<comment> \<open>pattern \<open>-?[0-9]+\.?[0-9]*\<close>\<close>
  "percentRegex = seqs [opt (Chr (CHR ''-'')), plus rx_digit, opt (Chr (CHR ''.'')), star rx_digit]"

definition parsePercent :: "string \<Rightarrow> float64" where
  "parsePercent s =
     (let match = FindString percentRegex s
      in if match = [] then float64_zero else ParseFloat match)"

section \<open>The text-proximity page extractor\<close>

text \<open>
  The patterns of \<open>scrapePage\<close> (homes.go, lines 364-371):
  \<^verbatim>\<open>addressRegex  (\d+\s+[A-Za-z\s]+(?:St|Ave|Rd|Dr|Pl|Place|Street|Avenue|Road|Drive).*?Honolulu,\s*HI\s*96822)\<close>
  \<^verbatim>\<open>priceRegex    \$([0-9,]+)\<close>
  \<^verbatim>\<open>sqftRegex     ([0-9,]+)\s*Sq\s*Ft\<close>
  \<^verbatim>\<open>bedroomRegex  (\d+)\s*Bed\<close>
  \<^verbatim>\<open>bathroomRegex ([0-9.]+)\s*Bath\<close>
  \<^verbatim>\<open>soldRegex     SOLD\s+([A-Z]{3}\s+\d{1,2},\s+\d{4})\<close>
  \<^verbatim>\<open>daysRegex     (\d+)\s*Days\s*On\s*Market\<close>
  \<^verbatim>\<open>yearRegex     Built\s+(\d{4})\<close>
\<close>

definition addressRegex :: regex where
  "addressRegex =
     Cap 1 (seqs [plus rx_digit, plus rx_space,
       plus (Cls False [(CHR ''A'', CHR ''Z''), (CHR ''a'', CHR ''z''), (CHR 0x09, CHR 0x0A),
                        (CHR 0x0C, CHR 0x0D), (CHR '' '', CHR '' '')]),
       alts (lits ''St'') [lits ''Ave'', lits ''Rd'', lits ''Dr'', lits ''Pl'', lits ''Place'',
                          lits ''Street'', lits ''Avenue'', lits ''Road'', lits ''Drive''],
       Rep rx_any 0 None False,
       lits ''Honolulu,'', star rx_space, lits ''HI'', star rx_space, lits ''96822''])"

definition priceRegex :: regex where
  "priceRegex = Seq (Chr (CHR ''$'')) (Cap 1 (plus rx_digit_comma))"

definition sqftRegex :: regex where
  "sqftRegex = seqs [Cap 1 (plus rx_digit_comma), star rx_space, lits ''Sq'', star rx_space,
                     lits ''Ft'']"

definition bedroomRegex :: regex where
  "bedroomRegex = seqs [Cap 1 (plus rx_digit), star rx_space, lits ''Bed'']"

definition bathroomRegex :: regex where
  "bathroomRegex = seqs [Cap 1 (plus rx_digit_dot), star rx_space, lits ''Bath'']"

definition soldRegex :: regex where
  "soldRegex =
     seqs [lits ''SOLD'', plus rx_space,
           Cap 1 (seqs [times 3 (Cls False [(CHR ''A'', CHR ''Z'')]), plus rx_space,
                        Rep rx_digit 1 (Some 2) True, Chr (CHR '',''), plus rx_space,
                        times 4 rx_digit])]"

definition daysRegex :: regex where
  "daysRegex = seqs [Cap 1 (plus rx_digit), star rx_space, lits ''Days'', star rx_space,
                     lits ''On'', star rx_space, lits ''Market'']"

definition yearRegex :: regex where
  "yearRegex = seqs [lits ''Built'', plus rx_space, Cap 1 (times 4 rx_digit)]"

definition on_match :: "string list \<Rightarrow> (string \<Rightarrow> 'a \<Rightarrow> 'a) \<Rightarrow> 'a \<Rightarrow> 'a" where
  \<comment> \<open>\<open>if m := re.FindStringSubmatch(text); len(m) > 1 { ... m[1] ... }\<close>\<close>
  "on_match m upd x = (case m of _ # m1 # _ \<Rightarrow> upd m1 x | _ \<Rightarrow> x)"

definition set_PricePerSqFt :: "Property \<Rightarrow> Property" where
  \<comment> \<open>\<open>if property.Price > 0 && property.SquareFeet > 0 { ... }\<close>, the same statement in
      every extractor; both operands are positive, so Go's quotient is \<open>div\<close>\<close>
  "set_PricePerSqFt p =
     (if Price p > 0 \<and> SquareFeet p > 0 then p\<lparr>PricePerSqFt := Price p div SquareFeet p\<rparr>
      else p)"

definition chunk_fields :: "string \<Rightarrow> Property \<Rightarrow> Property" where
  \<comment> \<open>lines 411-444: one pattern per field, each applied to the chunk on its own\<close>
  "chunk_fields chunk property =
     (let property = on_match (FindStringSubmatch priceRegex 1 chunk)
                       (\<lambda>m p. p\<lparr>Price := parsePrice m\<rparr>) property;
          property = on_match (FindStringSubmatch sqftRegex 1 chunk)
                       (\<lambda>m p. p\<lparr>SquareFeet := parseInt m\<rparr>) property;
          property = on_match (FindStringSubmatch bedroomRegex 1 chunk)
                       (\<lambda>m p. p\<lparr>Bedrooms := parseInt m\<rparr>) property;
          property = on_match (FindStringSubmatch bathroomRegex 1 chunk)
                       (\<lambda>m p. p\<lparr>Bathrooms := parseFloat m\<rparr>) property;
          property = on_match (FindStringSubmatch soldRegex 1 chunk)
                       (\<lambda>m p. p\<lparr>SoldDate := m\<rparr>) property;
          property = on_match (FindStringSubmatch daysRegex 1 chunk)
                       (\<lambda>m p. p\<lparr>DaysOnMarket := parseInt m\<rparr>) property;
          property = on_match (FindStringSubmatch yearRegex 1 chunk)
                       (\<lambda>m p. p\<lparr>YearBuilt := parseInt m\<rparr>) property
      in property)"

definition candidate :: "string \<Rightarrow> string \<Rightarrow> Property option" where
  \<comment> \<open>the body of the loop over the addresses (lines 376-457) up to the admission
      test; \<open>None\<close> where the source says \<open>continue\<close>\<close>
  "candidate pageText address =
     (if address = [] then None
      else
        let property = zero_Property\<lparr>Status := ''sold''\<rparr>;
            parts = Split address (CHR '','');
            property = (if length parts \<ge> 3
                        then property\<lparr>Address := TrimSpace (parts ! 0), City := ''Honolulu'',
                                      State := ''HI'', ZipCode := ''96822''\<rparr>
                        else property)
        in case Index pageText address of
             None \<Rightarrow> None
           | Some addressIndex \<Rightarrow>
               let start = (if addressIndex < 500 then 0 else addressIndex - 500);
                   end = (if addressIndex + 1000 > length pageText then length pageText
                          else addressIndex + 1000);
                   chunk = substr pageText start end;
                   property = chunk_fields chunk property;
                   property = set_PricePerSqFt property;
                   property = property\<lparr>PropertyType := ''house''\<rparr>;
                   property = (if Address property \<noteq> []
                               then property\<lparr>ID := generatePropertyID (Address property)
                                                      (City property)\<rparr>
                               else property)
               in Some property)"

definition admitted :: "Property \<Rightarrow> bool" where
  \<comment> \<open>\<open>if property.Address != "" && property.Price > 0\<close> (lines 459-462)\<close>
  "admitted p \<longleftrightarrow> Address p \<noteq> [] \<and> Price p > 0"

definition candidates :: "string \<Rightarrow> Property list" where
  "candidates pageText =
     List.map_filter (candidate pageText) (FindAllString addressRegex pageText)"

definition extract_properties :: "string \<Rightarrow> Property list" where
  \<comment> \<open>lines 357-465 of \<open>scrapePage\<close>: the records appended to \<open>properties\<close>, in order\<close>
  "extract_properties pageText = filter admitted (candidates pageText)"

definition scrapePage :: "Client \<Rightarrow> string \<Rightarrow> error + Property list" where
  "scrapePage client url =
     (case client url of
        RequestError err \<Rightarrow> Inl err
      | TransportError err \<Rightarrow> Inl err
      | Response statusCode status body \<Rightarrow>
          if statusCode \<noteq> 200
          then Inl (''HTTP '' @ string_of_nat statusCode @ '': '' @ status)
          else (case body of
                  Unparseable err \<Rightarrow> Inl err
                | Parsed doc \<Rightarrow> Inr (extract_properties (Text doc))))"

section \<open>Pagination and deduplication\<close>

text \<open>
  \<open>ScrapeNeighborhood\<close> (homes.go, lines 117-161). The loop over the pages is
  \<open>crawl\<close>; it takes the page scraper as an argument, which in the source is the
  method \<open>scrapePage\<close> of the scraper that owns the HTTP client. Beside the source's
  result it returns the numbers of the pages it asked the page scraper for, in the
  order of the calls. The deduplication map is an association list with one entry
  per key. Go ranges over a map in an unspecified order: the result list is given in
  the order of the association list, and the theorems below speak only of its
  elements and its length.
\<close>

definition page_url :: "string \<Rightarrow> string \<Rightarrow> string \<Rightarrow> string \<Rightarrow> nat \<Rightarrow> string" where
  "page_url city state neighborhood status page =
     (let cityState = ToLower city @ ''-'' @ ToLower state;
          neighborhoodSlug = ToLower (ReplaceAll neighborhood (CHR '' '') ''-'')
      in if page = 1
         then ''https://www.homes.com/'' @ cityState @ ''/'' @ neighborhoodSlug @
              ''-neighborhood/'' @ status @ ''/''
         else ''https://www.homes.com/'' @ cityState @ ''/'' @ neighborhoodSlug @
              ''-neighborhood/'' @ status @ ''/p'' @ string_of_nat page @ ''/'')"

type_synonym propertyMap = "(string \<times> Property) list"

definition add_page :: "propertyMap \<Rightarrow> Property list \<Rightarrow> propertyMap" where
  \<comment> \<open>\<open>for _, prop := range pageProperties { if prop.ID != "" { propertyMap[prop.ID] = prop } }\<close>\<close>
  "add_page m pageProperties =
     foldl (\<lambda>m prop. if ID prop \<noteq> [] then AList.update (ID prop) prop m else m) m pageProperties"

definition page_error :: "nat \<Rightarrow> error \<Rightarrow> error" where
  \<comment> \<open>\<open>fmt.Errorf("failed to scrape page %d: %v", page, err)\<close>\<close>
  "page_error page err = ''failed to scrape page '' @ string_of_nat page @ '': '' @ err"

function crawl :: "(string \<Rightarrow> error + Property list) \<Rightarrow> (nat \<Rightarrow> string) \<Rightarrow> nat \<Rightarrow> propertyMap
    \<Rightarrow> nat list \<Rightarrow> nat list \<times> (error + propertyMap)" where
  "crawl scrape url page m fetched =
     (if page \<le> 3
      then (case scrape (url page) of
              Inl err \<Rightarrow>
                (fetched @ [page], Inl (page_error page err))
            | Inr pageProperties \<Rightarrow>
                let m = add_page m pageProperties
                in if length pageProperties < 20 then (fetched @ [page], Inr m)
                   else crawl scrape url (page + 1) m (fetched @ [page]))
      else (fetched, Inr m))"
  by pat_completeness auto
termination
  by (relation "measure (\<lambda>(scrape, url, page, m, fetched). 4 - page)") auto

definition ScrapeNeighborhood_with :: "(string \<Rightarrow> error + Property list) \<Rightarrow> string \<Rightarrow> string
    \<Rightarrow> string \<Rightarrow> string \<Rightarrow> nat list \<times> (error + Property list)" where
  "ScrapeNeighborhood_with scrape city state neighborhood status =
     (case crawl scrape (page_url city state neighborhood status) 1 [] [] of
        (fetched, Inl err) \<Rightarrow> (fetched, Inl err)
      | (fetched, Inr m) \<Rightarrow> (fetched, Inr (map snd m)))"

definition ScrapeNeighborhood :: "Client \<Rightarrow> string \<Rightarrow> string \<Rightarrow> string \<Rightarrow> string
    \<Rightarrow> nat list \<times> (error + Property list)" where
  "ScrapeNeighborhood client city state neighborhood status =
     ScrapeNeighborhood_with (scrapePage client) city state neighborhood status"

definition ScrapeManoa :: "Client \<Rightarrow> string \<Rightarrow> nat list \<times> (error + Property list)" where
  "ScrapeManoa client status = ScrapeNeighborhood client ''Honolulu'' ''HI'' ''manoa'' status"

section \<open>The statistics extractor\<close>

text \<open>
  \<open>ScrapeNeighborhoodStats\<close> and \<open>ScrapeMarketStats\<close> (homes.go, lines 164-327). The two
  functions differ in the URL, in the area label and in one fallback pattern. The
  capture instant \<open>time.Now()\<close> is the argument \<open>now\<close>. The fallback patterns:
  \<^verbatim>\<open>Median Sale Price \$([0-9,]+)\<close>
  \<^verbatim>\<open>Average Price Per Sq Ft \$([0-9,]+)\<close>
  \<^verbatim>\<open>([0-9]+) days on the market\<close>
  \<^verbatim>\<open>down ([0-9]+)%\<close>
  \<^verbatim>\<open>([0-9]+) homes for sale in\<close>  (neighborhood), \<^verbatim>\<open>([0-9]+) homes in Manoa\<close>  (market)
  \<^verbatim>\<open>([0-9]+) home sales\<close>
\<close>

definition trend_row :: "MarketStats \<Rightarrow> string \<times> string \<Rightarrow> MarketStats" where
  \<comment> \<open>the \<open>switch\<close> on the label of one table row: the first case that holds\<close>
  "trend_row stats row =
     (let label = TrimSpace (fst row);
          val = TrimSpace (snd row)
      in if Contains label ''Median Sale Price'' then stats\<lparr>MedianSalePrice := parsePrice val\<rparr>
         else if Contains label ''Median Single Family Sale Price''
           then stats\<lparr>MedianSingleFamilyPrice := parsePrice val\<rparr>
         else if Contains label ''Median Townhouse Sale Price''
           then stats\<lparr>MedianTownhousePrice := parsePrice val\<rparr>
         else if Contains label ''Average Price Per Sq Ft''
           then stats\<lparr>AveragePricePerSqFt := parsePrice val\<rparr>
         else if Contains label ''Number of Homes for Sale''
           then stats\<lparr>HomesForSale := parseInt val\<rparr>
         else if Contains label ''Last 12 months Home Sales''
           then stats\<lparr>SalesLast12Months := parseInt val\<rparr>
         else if Contains label ''YoY Change''
           then stats\<lparr>YearOverYearChange := parsePercent val\<rparr>
         else stats)"

definition structured_stats :: "Document \<Rightarrow> MarketStats \<Rightarrow> MarketStats" where
  "structured_stats doc stats = foldl trend_row stats (housing_trends_rows doc)"

definition medianRegex :: regex where
  "medianRegex = Seq (lits ''Median Sale Price $'') (Cap 1 (plus rx_digit_comma))"

definition avgPriceRegex :: regex where
  "avgPriceRegex = Seq (lits ''Average Price Per Sq Ft $'') (Cap 1 (plus rx_digit_comma))"

definition daysOnTheMarketRegex :: regex where
  "daysOnTheMarketRegex = Seq (Cap 1 (plus rx_digit)) (lits '' days on the market'')"

definition downRegex :: regex where
  "downRegex = seqs [lits ''down '', Cap 1 (plus rx_digit), Chr (CHR ''%'')]"

definition homesForSaleInRegex :: regex where
  "homesForSaleInRegex = Seq (Cap 1 (plus rx_digit)) (lits '' homes for sale in'')"

definition homesInManoaRegex :: regex where
  "homesInManoaRegex = Seq (Cap 1 (plus rx_digit)) (lits '' homes in Manoa'')"

definition homeSalesRegex :: regex where
  "homeSalesRegex = Seq (Cap 1 (plus rx_digit)) (lits '' home sales'')"

definition text_fallback :: "regex \<Rightarrow> string \<Rightarrow> MarketStats \<Rightarrow> MarketStats" where
  \<comment> \<open>the body of \<open>if stats.MedianSalePrice == 0\<close>; \<open>homesRegex\<close> is the pattern in which
      the two functions differ\<close>
  "text_fallback homesRegex text stats =
     (let stats = on_match (FindStringSubmatch medianRegex 1 text)
                    (\<lambda>m st. st\<lparr>MedianSalePrice := parsePrice m\<rparr>) stats;
          stats = on_match (FindStringSubmatch avgPriceRegex 1 text)
                    (\<lambda>m st. st\<lparr>AveragePricePerSqFt := parsePrice m\<rparr>) stats;
          stats = on_match (FindStringSubmatch daysOnTheMarketRegex 1 text)
                    (\<lambda>m st. st\<lparr>AverageDaysOnMarket := parseInt m\<rparr>) stats;
          stats = on_match (FindStringSubmatch downRegex 1 text)
                    (\<lambda>m st. st\<lparr>YearOverYearChange := float64_neg (parsePercent (m @ ''%''))\<rparr>) stats;
          stats = on_match (FindStringSubmatch homesRegex 1 text)
                    (\<lambda>m st. st\<lparr>HomesForSale := parseInt m\<rparr>) stats;
          stats = on_match (FindStringSubmatch homeSalesRegex 1 text)
                    (\<lambda>m st. st\<lparr>SalesLast12Months := parseInt m\<rparr>) stats
      in stats)"

definition zero_MarketStats :: MarketStats where
  "zero_MarketStats =
     \<lparr>Area = [], MedianSalePrice = 0, MedianSingleFamilyPrice = 0, MedianTownhousePrice = 0,
      AveragePricePerSqFt = 0, HomesForSale = 0, SalesLast12Months = 0,
      AverageDaysOnMarket = 0, MonthsOfSupply = float64_zero,
      YearOverYearChange = float64_zero, Timestamp = []\<rparr>"

definition extract_stats :: "regex \<Rightarrow> string \<Rightarrow> string \<Rightarrow> Document \<Rightarrow> MarketStats" where
  "extract_stats homesRegex area now doc =
     (let stats = zero_MarketStats\<lparr>Area := area, Timestamp := now\<rparr>;
          stats = structured_stats doc stats
      in if MedianSalePrice stats = 0 then text_fallback homesRegex (Text doc) stats
         else stats)"

definition fetch_stats :: "Client \<Rightarrow> string \<Rightarrow> (Document \<Rightarrow> MarketStats) \<Rightarrow> error + MarketStats" where
  \<comment> \<open>lines 171-189 and 253-271: the request, the response and the document; the
      status code of the response is not read\<close>
  "fetch_stats client url extract =
     (case client url of
        RequestError err \<Rightarrow> Inl err
      | TransportError err \<Rightarrow> Inl err
      | Response statusCode status body \<Rightarrow>
          (case body of
             Unparseable err \<Rightarrow> Inl err
           | Parsed doc \<Rightarrow> Inr (extract doc)))"

definition ScrapeNeighborhoodStats :: "Client \<Rightarrow> string \<Rightarrow> string \<Rightarrow> string \<Rightarrow> string
    \<Rightarrow> error + MarketStats" where
  "ScrapeNeighborhoodStats client now city state neighborhood =
     (let cityState = ToLower city @ ''-'' @ ToLower state;
          neighborhoodSlug = ToLower (ReplaceAll neighborhood (CHR '' '') ''-'');
          url = ''https://www.homes.com/'' @ cityState @ ''/'' @ neighborhoodSlug @
                ''-neighborhood/sold/''
      in fetch_stats client url
           (extract_stats homesForSaleInRegex (neighborhood @ '', '' @ city @ '', '' @ state) now))"

definition ScrapeMarketStats :: "Client \<Rightarrow> string \<Rightarrow> string \<Rightarrow> string \<Rightarrow> error + MarketStats" where
  "ScrapeMarketStats client now city state =
     (let url = ''https://www.homes.com/'' @ ToLower city @ ''-'' @ ToLower state @
                ''/manoa-neighborhood/sold/''
      in fetch_stats client url (extract_stats homesInManoaRegex (city @ '', '' @ state) now))"

section \<open>The detail-page extractor\<close>

text \<open>
  \<open>ScrapePropertyDetail\<close> (homes.go, lines 613-798) and \<open>scrapeRedfinProperty\<close> (lines
  801-1076). The patterns of \<open>ScrapePropertyDetail\<close> that differ from the ones of
  \<open>scrapePage\<close>:
  \<^verbatim>\<open>sqftRegex     ([0-9,]+)\s*(?:sq|square)\s*(?:ft|feet)\<close>
  \<^verbatim>\<open>bedroomRegex  (\d+)\s*(?:bed|bedroom)\<close>
  \<^verbatim>\<open>bathroomRegex ([0-9.]+)\s*(?:bath|bathroom)\<close>
  \<^verbatim>\<open>yearRegex     (?:built|year)\s*:?\s*(\d{4})\<close>
\<close>

fun first_index :: "('a \<Rightarrow> bool) \<Rightarrow> 'a list \<Rightarrow> nat option" where
  \<comment> \<open>the index at which a \<open>for i, part := range parts\<close> loop reaches its \<open>break\<close>\<close>
  "first_index P [] = None"
| "first_index P (x # xs) = (if P x then Some 0 else map_option Suc (first_index P xs))"

definition detail_sqftRegex :: regex where
  "detail_sqftRegex =
     seqs [Cap 1 (plus rx_digit_comma), star rx_space, Alt (lits ''sq'') (lits ''square''),
           star rx_space, Alt (lits ''ft'') (lits ''feet'')]"

definition detail_bedroomRegex :: regex where
  "detail_bedroomRegex =
     seqs [Cap 1 (plus rx_digit), star rx_space, Alt (lits ''bed'') (lits ''bedroom'')]"

definition detail_bathroomRegex :: regex where
  "detail_bathroomRegex =
     seqs [Cap 1 (plus rx_digit_dot), star rx_space, Alt (lits ''bath'') (lits ''bathroom'')]"

definition detail_yearRegex :: regex where
  "detail_yearRegex =
     seqs [Alt (lits ''built'') (lits ''year''), star rx_space, opt (Chr (CHR '':'')),
           star rx_space, Cap 1 (times 4 rx_digit)]"

definition with_ID :: "Property \<Rightarrow> Property" where
  \<comment> \<open>\<open>property.ID = generatePropertyID(property.Address, property.City)\<close>\<close>
  "with_ID p = p\<lparr>ID := generatePropertyID (Address p) (City p)\<rparr>"

definition slug_fields :: "string \<Rightarrow> Property \<Rightarrow> Property" where
  \<comment> \<open>lines 627-666: address, city and state from the fifth part of the URL\<close>
  "slug_fields url property =
     (let urlParts = Split url (CHR ''/'')
      in if length urlParts \<ge> 5
         then (let addressSlug = urlParts ! 4;
                   addressParts = Split addressSlug (CHR ''-'')
               in if length addressParts \<ge> 3
                  then (let (addressComponents, city, state) =
                              (case first_index (\<lambda>part. length part = 2) addressParts of
                                 None \<Rightarrow> ([], [], [])
                               | Some i \<Rightarrow>
                                   (if i > 1
                                    then map Title (filter (\<lambda>part. part \<noteq> [])
                                                      (take (i - 1) addressParts))
                                    else [],
                                    if i > 0 then Title (addressParts ! (i - 1)) else [],
                                    ToUpper (addressParts ! i)));
                            property = (if length addressComponents > 0
                                        then property\<lparr>Address := Join addressComponents '' ''\<rparr>
                                        else property);
                            property = (if city \<noteq> [] then property\<lparr>City := city\<rparr> else property);
                            property = (if state \<noteq> [] then property\<lparr>State := state\<rparr>
                                        else property)
                        in property)
                  else property)
         else property)"

definition detail_text_fields :: "string \<Rightarrow> Property \<Rightarrow> Property" where
  \<comment> \<open>lines 727-755\<close>
  "detail_text_fields pageText property =
     (let property = on_match (FindStringSubmatch priceRegex 1 pageText)
                       (\<lambda>m p. p\<lparr>Price := parsePrice m\<rparr>) property;
          property = on_match (FindStringSubmatch detail_sqftRegex 1 pageText)
                       (\<lambda>m p. p\<lparr>SquareFeet := parseInt m\<rparr>) property;
          property = on_match (FindStringSubmatch detail_bedroomRegex 1 pageText)
                       (\<lambda>m p. p\<lparr>Bedrooms := parseInt m\<rparr>) property;
          property = on_match (FindStringSubmatch detail_bathroomRegex 1 pageText)
                       (\<lambda>m p. p\<lparr>Bathrooms := parseFloat m\<rparr>) property;
          property = on_match (FindStringSubmatch detail_yearRegex 1 pageText)
                       (\<lambda>m p. p\<lparr>YearBuilt := parseInt m\<rparr>) property;
          property = on_match (FindStringSubmatch soldRegex 1 pageText)
                       (\<lambda>m p. p\<lparr>SoldDate := m\<rparr>) property
      in property)"

definition detail_propertyType :: "string \<Rightarrow> Property \<Rightarrow> Property" where
  \<comment> \<open>lines 774-780\<close>
  "detail_propertyType pageText property =
     (let property = property\<lparr>PropertyType := ''house''\<rparr>
      in if Contains (ToLower pageText) ''condo'' \<or> Contains (ToLower pageText) ''condominium''
         then property\<lparr>PropertyType := ''condo''\<rparr>
         else if Contains (ToLower pageText) ''townhouse'' \<or>
                 Contains (ToLower pageText) ''townhome''
         then property\<lparr>PropertyType := ''townhouse''\<rparr>
         else property)"

definition detail_fields :: "Document \<Rightarrow> Property \<Rightarrow> Property" where
  \<comment> \<open>lines 716-797: the fields read from the page of a generic listing\<close>
  "detail_fields doc property =
     (let pageText = Text doc;
          property = detail_text_fields pageText property;
          property = foldl (\<lambda>p content. case content of None \<Rightarrow> p
                                           | Some c \<Rightarrow> p\<lparr>Description := c\<rparr>)
                       property (meta_description doc);
          features = filter (\<lambda>feature. feature \<noteq> [] \<and> length feature < 100)
                       (map TrimSpace (li_feature_amenity doc));
          property = property\<lparr>Features := features\<rparr>;
          property = detail_propertyType pageText property;
          property = (if Address property \<noteq> [] then with_ID property else property);
          property = (if City property = ''Honolulu'' \<and> State property = ''HI''
                      then property\<lparr>ZipCode := ''96822''\<rparr> else property)
      in set_PricePerSqFt property)"

text \<open>
  The patterns of \<open>scrapeRedfinProperty\<close> (lines 881-900, 985, 1003-1012):
  \<^verbatim>\<open>priceRegex          \$([0-9,]+(?:\.[0-9]{2})?)\<close>
  \<^verbatim>\<open>sqftRegex           ([0-9,]+)\s*(?:sq\.?\s*ft\.?|square\s+feet)\<close>
  \<^verbatim>\<open>lotSizeRegex        ([0-9,.]+)\s*(?:acres?|ac\b)\<close>
  \<^verbatim>\<open>daysOnMarketRegex   (\d+)\s*days?\s*on\s*market\<close>
  \<^verbatim>\<open>schoolDistrictRegex (?:district|District):\s*([^,\n]+)\<close>
  \<^verbatim>\<open>propertyTaxRegex    Property\s+Tax:\s*\$([0-9,]+)\<close>
  \<^verbatim>\<open>hoaRegex            HOA:\s*\$([0-9,]+)\<close>
  \<^verbatim>\<open>parkingRegex        (\d+)\s*car\s*garage|(\d+)\s*parking\s*space\<close>
  \<^verbatim>\<open>descRegex           (?i)description[:\s]*([^.]{50,500}\.?)\<close>
  and, for a label \<open>L\<close>, \<^verbatim>\<open>L:\s*([^,\n]+)\<close>; the patterns for bedrooms, bathrooms, year
  and sold date are those of \<open>ScrapePropertyDetail\<close>.
\<close>

definition redfin_priceRegex :: regex where
  "redfin_priceRegex =
     Seq (Chr (CHR ''$''))
       (Cap 1 (Seq (plus rx_digit_comma) (opt (Seq (Chr (CHR ''.'')) (times 2 rx_digit)))))"

definition redfin_sqftRegex :: regex where
  "redfin_sqftRegex =
     seqs [Cap 1 (plus rx_digit_comma), star rx_space,
           Alt (seqs [lits ''sq'', opt (Chr (CHR ''.'')), star rx_space, lits ''ft'',
                      opt (Chr (CHR ''.''))])
               (seqs [lits ''square'', plus rx_space, lits ''feet''])]"

definition lotSizeRegex :: regex where
  "lotSizeRegex =
     seqs [Cap 1 (plus (Cls False [(CHR ''0'', CHR ''9''), (CHR '','', CHR '',''),
                                  (CHR ''.'', CHR ''.'')])),
           star rx_space,
           Alt (Seq (lits ''acre'') (opt (Chr (CHR ''s'')))) (Seq (lits ''ac'') WordBoundary)]"

definition daysOnMarketRegex :: regex where
  "daysOnMarketRegex =
     seqs [Cap 1 (plus rx_digit), star rx_space, lits ''day'', opt (Chr (CHR ''s'')),
           star rx_space, lits ''on'', star rx_space, lits ''market'']"

definition rx_value :: regex where
  \<comment> \<open>\<open>\s*([^,\n]+)\<close>\<close>
  "rx_value = Seq (star rx_space)
                (Cap 1 (plus (Cls True [(CHR '','', CHR '',''), (CHR 0x0A, CHR 0x0A)])))"

definition labelRegex :: "string \<Rightarrow> regex" where
  \<comment> \<open>\<open>L:\s*([^,\n]+)\<close>\<close>
  "labelRegex l = Seq (lits (l @ '':'')) rx_value"

definition schoolDistrictRegex :: regex where
  "schoolDistrictRegex =
     seqs [Alt (lits ''district'') (lits ''District''), Chr (CHR '':''), rx_value]"

definition propertyTaxRegex :: regex where
  "propertyTaxRegex =
     seqs [lits ''Property'', plus rx_space, lits ''Tax:'', star rx_space, Chr (CHR ''$''),
           Cap 1 (plus rx_digit_comma)]"

definition hoaRegex :: regex where
  "hoaRegex = seqs [lits ''HOA:'', star rx_space, Chr (CHR ''$''), Cap 1 (plus rx_digit_comma)]"

definition parkingRegex :: regex where
  "parkingRegex =
     Alt (seqs [Cap 1 (plus rx_digit), star rx_space, lits ''car'', star rx_space,
                lits ''garage''])
         (seqs [Cap 2 (plus rx_digit), star rx_space, lits ''parking'', star rx_space,
                lits ''space''])"

definition lits_fold :: "string \<Rightarrow> regex" where
  \<comment> \<open>a literal under the flag \<open>(?i)\<close>: each letter in either case\<close>
  "lits_fold s =
     foldr (\<lambda>c r. Seq (Cls False [(toLower_char c, toLower_char c),
                                   (toUpper_char c, toUpper_char c)]) r) s Empty"

definition descRegex :: regex where
  "descRegex =
     seqs [lits_fold ''description'',
           star (Cls False [(CHR '':'', CHR '':''), (CHR 0x09, CHR 0x0A), (CHR 0x0C, CHR 0x0D),
                            (CHR '' '', CHR '' '')]),
           Cap 1 (Seq (Rep (Cls True [(CHR ''.'', CHR ''.'')]) 50 (Some 500) True)
                      (opt (Chr (CHR ''.''))))]"

definition featurePatterns :: "regex list" where
  "featurePatterns =
     map labelRegex [''Heating'', ''Cooling'', ''Flooring'', ''Appliances'', ''Roof'',
                     ''Foundation'', ''View'', ''Fireplace'']"

definition redfin_url_fields :: "string \<Rightarrow> Property \<Rightarrow> Property" where
  \<comment> \<open>lines 808-838: state, city, address and postal code from the parts of the URL\<close>
  "redfin_url_fields url property =
     (let urlParts = Split url (CHR ''/'')
      in case first_index (\<lambda>part. length part = 2 \<and> ToUpper part = part) urlParts of
           None \<Rightarrow> property
         | Some i \<Rightarrow>
             let property = property\<lparr>State := urlParts ! i\<rparr>;
                 property = (if i + 1 < length urlParts
                             then property\<lparr>City := urlParts ! (i + 1)\<rparr> else property)
             in if i + 2 < length urlParts
                then (let addressPart = urlParts ! (i + 2)
                      in case LastIndex addressPart (CHR ''-'') of
                           None \<Rightarrow> property
                         | Some lastDashIndex \<Rightarrow>
                             if lastDashIndex > 0
                             then (let address = take lastDashIndex addressPart;
                                       zipCode = drop (lastDashIndex + 1) addressPart;
                                       addressComponents = map Title (Split address (CHR ''-''))
                                   in property\<lparr>Address := Join addressComponents '' '',
                                                ZipCode := zipCode\<rparr>)
                             else property)
                else property)"

definition feature_fields :: "Property \<Rightarrow> string \<Rightarrow> Property" where
  \<comment> \<open>lines 1022-1036: the body of the loop over the features\<close>
  "feature_fields property feature =
     (let lower = ToLower feature;
          property = (if Contains lower ''heating'' then property\<lparr>Heating := feature\<rparr>
                      else property);
          property = (if Contains lower ''cooling'' \<or> Contains lower ''air''
                      then property\<lparr>Cooling := feature\<rparr> else property);
          property = (if Contains lower ''floor''
                      then property\<lparr>Flooring := Flooring property @ [feature]\<rparr>
                      else property);
          property = (if Contains lower ''appliance''
                      then property\<lparr>Appliances := Appliances property @ [feature]\<rparr>
                      else property)
      in property)"

definition agent_fields :: "Property \<Rightarrow> string \<Rightarrow> Property" where
  \<comment> \<open>lines 1046-1054\<close>
  "agent_fields property raw =
     (let text = TrimSpace raw;
          property = (if Contains (ToLower text) ''agent'' \<and> Agent property = []
                      then property\<lparr>Agent := text\<rparr> else property);
          property = (if Contains (ToLower text) ''broker'' \<and> Brokerage property = []
                      then property\<lparr>Brokerage := text\<rparr> else property)
      in property)"

definition redfin_text_fields :: "string \<Rightarrow> Property \<Rightarrow> Property" where
  \<comment> \<open>lines 902-963: one pattern per field, each applied to the page text on its own\<close>
  "redfin_text_fields pageText property =
     (let property = on_match (FindStringSubmatch redfin_priceRegex 1 pageText)
                       (\<lambda>m p. p\<lparr>Price := parsePrice m\<rparr>) property;
          property = on_match (FindStringSubmatch redfin_sqftRegex 1 pageText)
                       (\<lambda>m p. p\<lparr>SquareFeet := parseInt m\<rparr>) property;
          property = on_match (FindStringSubmatch detail_bedroomRegex 1 pageText)
                       (\<lambda>m p. p\<lparr>Bedrooms := parseInt m\<rparr>) property;
          property = on_match (FindStringSubmatch detail_bathroomRegex 1 pageText)
                       (\<lambda>m p. p\<lparr>Bathrooms := parseFloat m\<rparr>) property;
          property = on_match (FindStringSubmatch detail_yearRegex 1 pageText)
                       (\<lambda>m p. p\<lparr>YearBuilt := parseInt m\<rparr>) property;
          property = on_match (FindStringSubmatch soldRegex 1 pageText)
                       (\<lambda>m p. p\<lparr>SoldDate := m\<rparr>) property;
          property = on_match (FindStringSubmatch lotSizeRegex 1 pageText)
                       (\<lambda>m p. p\<lparr>LotSize := parseFloat m\<rparr>) property;
          property = on_match (FindStringSubmatch daysOnMarketRegex 1 pageText)
                       (\<lambda>m p. p\<lparr>DaysOnMarket := parseInt m\<rparr>) property;
          property = on_match (FindStringSubmatch schoolDistrictRegex 1 pageText)
                       (\<lambda>m p. p\<lparr>SchoolDistrict := TrimSpace m\<rparr>) property;
          property = on_match (FindStringSubmatch (labelRegex ''Elementary'') 1 pageText)
                       (\<lambda>m p. p\<lparr>ElementarySchool := TrimSpace m\<rparr>) property;
          property = on_match (FindStringSubmatch (labelRegex ''Middle'') 1 pageText)
                       (\<lambda>m p. p\<lparr>MiddleSchool := TrimSpace m\<rparr>) property;
          property = on_match (FindStringSubmatch (labelRegex ''High'') 1 pageText)
                       (\<lambda>m p. p\<lparr>HighSchool := TrimSpace m\<rparr>) property;
          property = on_match (FindStringSubmatch (labelRegex ''Condition'') 1 pageText)
                       (\<lambda>m p. p\<lparr>PropertyCondition := TrimSpace m\<rparr>) property;
          property = on_match (FindStringSubmatch propertyTaxRegex 1 pageText)
                       (\<lambda>m p. p\<lparr>PropertyTax := ''$'' @ m\<rparr>) property;
          property = on_match (FindStringSubmatch hoaRegex 1 pageText)
                       (\<lambda>m p. p\<lparr>HOAFees := ''$'' @ m\<rparr>) property
      in property)"

definition redfin_parking :: "string \<Rightarrow> Property \<Rightarrow> Property" where
  \<comment> \<open>lines 965-973\<close>
  "redfin_parking pageText property =
     (case FindStringSubmatch parkingRegex 2 pageText of
        [_, m1, m2] \<Rightarrow>
          if m1 \<noteq> []
          then property\<lparr>ParkingSpaces := parseInt m1, Garage := m1 @ '' car garage''\<rparr>
          else if m2 \<noteq> [] then property\<lparr>ParkingSpaces := parseInt m2\<rparr>
          else property
      | _ \<Rightarrow> property)"

definition redfin_description :: "Document \<Rightarrow> Property \<Rightarrow> Property" where
  \<comment> \<open>lines 975-989\<close>
  "redfin_description doc property =
     (let property = foldl (\<lambda>p raw. let desc = TrimSpace raw
                                    in if desc \<noteq> [] \<and> length desc > length (Description p)
                                       then p\<lparr>Description := desc\<rparr> else p)
                       property (remarks doc)
      in if Description property = []
         then on_match (FindStringSubmatch descRegex 1 (Text doc))
                (\<lambda>m p. p\<lparr>Description := TrimSpace m\<rparr>) property
         else property)"

definition redfin_features :: "Document \<Rightarrow> string list" where
  \<comment> \<open>lines 991-1019\<close>
  "redfin_features doc =
     (let features = filter (\<lambda>feature. feature \<noteq> [] \<and> length feature < 100)
                       (map TrimSpace (feature_list_items doc))
      in foldl (\<lambda>fs pattern. on_match (FindStringSubmatch pattern 1 (Text doc))
                                 (\<lambda>m fs. fs @ [TrimSpace m]) fs)
           features featurePatterns)"

definition redfin_neighborhood :: "Property \<Rightarrow> Property" where
  \<comment> \<open>lines 1040-1043\<close>
  "redfin_neighborhood property =
     (if City property = ''Honolulu'' \<and> ZipCode property = ''96822''
      then property\<lparr>Neighborhood := ''Manoa''\<rparr> else property)"

definition redfin_propertyType :: "string \<Rightarrow> Property \<Rightarrow> Property" where
  \<comment> \<open>lines 1056-1065\<close>
  "redfin_propertyType pageText property =
     (let property = property\<lparr>PropertyType := ''house''\<rparr>;
          lowerText = ToLower pageText
      in if Contains lowerText ''condominium'' \<or> Contains lowerText ''condo''
         then property\<lparr>PropertyType := ''condo''\<rparr>
         else if Contains lowerText ''townhouse'' \<or> Contains lowerText ''townhome''
         then property\<lparr>PropertyType := ''townhouse''\<rparr>
         else if Contains lowerText ''apartment''
         then property\<lparr>PropertyType := ''apartment''\<rparr>
         else property)"

definition redfin_fields :: "Document \<Rightarrow> Property \<Rightarrow> Property" where
  \<comment> \<open>lines 875-1075: the fields read from the page of the second site\<close>
  "redfin_fields doc property =
     (let pageText = Text doc;
          property = redfin_text_fields pageText property;
          property = redfin_parking pageText property;
          property = redfin_description doc property;
          features = redfin_features doc;
          property = foldl feature_fields property features;
          property = property\<lparr>Features := features\<rparr>;
          property = redfin_neighborhood property;
          property = foldl agent_fields property (agent_brokerage doc);
          property = redfin_propertyType pageText property;
          property = with_ID property
      in set_PricePerSqFt property)"

definition scrapeRedfinProperty :: "Client \<Rightarrow> string \<Rightarrow> error + Property" where
  "scrapeRedfinProperty client url =
     (let property = zero_Property\<lparr>Status := ''sold''\<rparr>;
          property = redfin_url_fields url property
      in case client url of
           RequestError err \<Rightarrow> Inr (with_ID property)
         | TransportError err \<Rightarrow> Inr (with_ID property)
         | Response statusCode status body \<Rightarrow>
             if statusCode \<noteq> 200 then Inr (with_ID property)
             else (case body of
                     Unparseable err \<Rightarrow> Inr (with_ID property)
                   | Parsed doc \<Rightarrow> Inr (redfin_fields doc property)))"

definition ScrapePropertyDetail :: "Client \<Rightarrow> string \<Rightarrow> error + Property" where
  "ScrapePropertyDetail client url =
     (if Contains url ''redfin.com'' then scrapeRedfinProperty client url
      else
        let property = zero_Property\<lparr>Status := ''sold''\<rparr>;
            property = slug_fields url property;
            found = (if ToLower (City property) = ''honolulu'' \<and> ToLower (State property) = ''hi''
                     then (case snd (ScrapeManoa client ''sold'') of
                             Inl err \<Rightarrow> None
                           | Inr soldProperties \<Rightarrow>
                               List.find (\<lambda>soldProp. Contains (ToLower (Address soldProp))
                                                             (ToLower (Address property)))
                                 soldProperties)
                     else None)
        in case found of
             Some soldProp \<Rightarrow> Inr soldProp
           | None \<Rightarrow>
               (case client url of
                  RequestError err \<Rightarrow> Inl err
                | TransportError err \<Rightarrow> Inr (with_ID property)
                | Response statusCode status body \<Rightarrow>
                    if statusCode \<noteq> 200 then Inr (with_ID property)
                    else (case body of
                            Unparseable err \<Rightarrow> Inl err
                          | Parsed doc \<Rightarrow> Inr (detail_fields doc property))))"

section \<open>Notions used in the statements\<close>

definition ppsf_ok :: "Property \<Rightarrow> bool" where
  "ppsf_ok p \<longleftrightarrow>
     PricePerSqFt p = (if 0 < Price p \<and> 0 < SquareFeet p then Price p div SquareFeet p else 0)"

definition honolulu_sold :: "Property \<Rightarrow> bool" where
  "honolulu_sold p \<longleftrightarrow>
     Status p = ''sold'' \<and> City p = ''Honolulu'' \<and> State p = ''HI'' \<and> ZipCode p = ''96822''"

definition stops :: "(string \<Rightarrow> error + Property list) \<Rightarrow> string \<Rightarrow> bool" where
  "stops scrape u = (case scrape u of Inl err \<Rightarrow> True | Inr ps \<Rightarrow> length ps < 20)"

definition pages_yield :: "(string \<Rightarrow> error + Property list) \<Rightarrow> (nat \<Rightarrow> string) \<Rightarrow> nat list
    \<Rightarrow> Property list" where
  "pages_yield scrape url fetched =
     concat (map (\<lambda>page. case scrape (url page) of Inl err \<Rightarrow> [] | Inr ps \<Rightarrow> ps) fetched)"

definition dedup_of :: "Property list \<Rightarrow> Property list \<Rightarrow> bool" where
  "dedup_of yielded props \<longleftrightarrow>
     distinct (map ID props) \<and>
     ID ` set props = ID ` set yielded \<and>
     length props = card (ID ` set yielded) \<and>
     (\<forall>p \<in> set props. p = last (filter (\<lambda>q. ID q = ID p) yielded))"





section \<open>Example inputs\<close>

definition ex_text :: string where
  "ex_text = ''1 A St,Honolulu,HI96822$9 4Sq Ft''"

definition ex_record :: Property where
  "ex_record =
     zero_Property\<lparr>ID := ''prop_1asthonolulu'', Address := ''1 A St'', City := ''Honolulu'',
        State := ''HI'', ZipCode := ''96822'', Price := 9, SquareFeet := 4,
        PricePerSqFt := 2, PropertyType := ''house'', Status := ''sold''\<rparr>"

definition ex_doc :: "string \<Rightarrow> Document" where
  "ex_doc text = \<lparr>Text = text, housing_trends_rows = [], meta_description = [],
     li_feature_amenity = [], remarks = [], feature_list_items = [], agent_brokerage = []\<rparr>"

definition ex_client :: Client where
  "ex_client = (\<lambda>url. Response 200 ''200 OK'' (Parsed (ex_doc ex_text)))"

definition mock_20_20_5 :: "string \<Rightarrow> error + Property list" where
  "mock_20_20_5 url =
     (if url = page_url ''honolulu'' ''hi'' ''manoa'' ''sold'' 3
      then Inr (replicate 5 (zero_Property\<lparr>ID := ''a''\<rparr>))
      else Inr (replicate 20 (zero_Property\<lparr>ID := ''b''\<rparr>)))"

definition mock_page2_fails :: "string \<Rightarrow> error + Property list" where
  "mock_page2_fails url =
     (if url = page_url ''honolulu'' ''hi'' ''manoa'' ''sold'' 1
      then Inr (replicate 20 ex_record)
      else Inl ''HTTP 403: 403 Forbidden'')"

definition client_403 :: Client where
  "client_403 = (\<lambda>url. Response 403 ''403 Forbidden'' (Parsed (ex_doc ''Access denied'')))"

definition client_down :: Client where
  "client_down = (\<lambda>url. TransportError ''dial tcp: i/o timeout'')"

definition rec_a :: Property where "rec_a = zero_Property\<lparr>ID := ''a''\<rparr>"

definition rec_b :: Property where "rec_b = zero_Property\<lparr>ID := ''b'', Price := 1\<rparr>"

definition rec_b' :: Property where "rec_b' = zero_Property\<lparr>ID := ''b'', Price := 2\<rparr>"

definition mock_overlap :: "string \<Rightarrow> error + Property list" where
  "mock_overlap url =
     (if url = page_url ''honolulu'' ''hi'' ''manoa'' ''sold'' 1
      then Inr (replicate 19 rec_a @ [rec_b])
      else Inr [rec_b'])"

definition redfin_url :: string where
  "redfin_url = ''https://www.redfin.com/HI/Honolulu/2819-Poelua-St-96822/home/88513618''"

definition redfin_partial :: Property where
  "redfin_partial =
     zero_Property\<lparr>ID := ''prop_2819poeluasthonolulu'', Address := ''2819 Poelua St'',
       City := ''Honolulu'', State := ''HI'', ZipCode := ''96822'', Status := ''sold''\<rparr>"

definition fresno_url :: string where
  "fresno_url = ''https://www.redfin.com/CA/Fresno/1-main-st-93650/home/7''"

definition fresno_partial :: Property where
  "fresno_partial =
     zero_Property\<lparr>ID := ''prop_1mainstfresno'', Address := ''1 Main St'', City := ''Fresno'',
       State := ''CA'', ZipCode := ''93650'', Status := ''sold''\<rparr>"

definition client_200 :: "string \<Rightarrow> Client" where
  "client_200 text = (\<lambda>url. Response 200 ''200 OK'' (Parsed (ex_doc text)))"

definition redfin_tail :: "string list" where
  "redfin_tail = [''HI'', ''Honolulu'', ''2819-Poelua-St-96822'', ''home'', ''88513618'']"



section \<open>The library functions on text beyond ASCII and on long numerals\<close>

text \<open>
  \<open>U+212A\<close> (Kelvin sign) is lower-cased to \<open>k\<close>, \<open>U+00C9\<close> to \<open>U+00E9\<close>, a byte that is
  not UTF-8 becomes \<open>U+FFFD\<close>; a two-byte part such as \<open>U+00E9\<close> is not its own
  upper-casing.
\<close>

lemma ToLower_beyond_ASCII:
  "ToLower [char_of (226 :: int), char_of (132 :: int), char_of (170 :: int)] = ''k''"
  "ToLower ([char_of (195 :: int), char_of (137 :: int)] @ ''AB'') =
     [char_of (195 :: int), char_of (169 :: int)] @ ''ab''"
  "ToLower ([char_of (255 :: int)] @ ''A'') =
     [char_of (239 :: int), char_of (191 :: int), char_of (189 :: int)] @ ''a''"
  "ToUpper [char_of (195 :: int), char_of (169 :: int)] =
     [char_of (195 :: int), char_of (137 :: int)]"
  "ToLower ''Poelua St'' = ''poelua st''" "ToUpper ''hi'' = ''HI''"
  by code_simp+

text \<open>
  \<open>Title\<close> puts in title case what follows a separator: a letter beyond ASCII
  (\<open>U+00E9\<close>) is no separator, the no-break space \<open>U+00A0\<close> is one. \<open>TrimSpace\<close>
  removes \<open>U+00A0\<close> and \<open>U+2003\<close> at the ends, and no byte that is not UTF-8.
\<close>

lemma Title_beyond_ASCII:
  "Title ([char_of (195 :: int), char_of (169 :: int)] @ ''a b-c d_e'') =
     [char_of (195 :: int), char_of (137 :: int)] @ ''a B-C D_e''"
  "Title (''x'' @ [char_of (194 :: int), char_of (160 :: int)] @ ''a'') =
     ''X'' @ [char_of (194 :: int), char_of (160 :: int)] @ ''A''"
  "Title ''poelua st'' = ''Poelua St''"
  by code_simp+

lemma TrimSpace_beyond_ASCII:
  "TrimSpace ('' '' @ [char_of (194 :: int), char_of (160 :: int)] @ ''a b'' @
     [char_of (226 :: int), char_of (128 :: int), char_of (131 :: int)] @ '' '') = ''a b''"
  "TrimSpace ([char_of (160 :: int)] @ ''a b'' @ [char_of (128 :: int), char_of (131 :: int)] @ '' '') =
     [char_of (160 :: int)] @ ''a b'' @ [char_of (128 :: int), char_of (131 :: int)]"
  "TrimSpace ''  2819 Poelua St  '' = ''2819 Poelua St''"
  by code_simp+

text \<open>
  \<open>ParseFloat\<close> rounds to the nearest \<open>float64\<close>, ties to even: \<open>2 ^ 53 + 1\<close> is
  rounded to \<open>2 ^ 53\<close>, \<open>0.1\<close> to \<open>3602879701896397 / 2 ^ 55\<close>; \<open>-0\<close> is the negative zero
  and a numeral beyond the range an infinity.
\<close>

lemma ParseFloat_rounds:
  "ParseFloat ''9007199254740993'' = Finite False 9007199254740992"
  "ParseFloat ''9007199254740995'' = Finite False 9007199254740996"
  "ParseFloat ''0.1'' = Finite False (3602879701896397 / 2 ^ 55)"
  "ParseFloat ''2.5'' = Finite False (5 / 2)"
  "ParseFloat ''5.'' = Finite False 5"
  "ParseFloat ''-0'' = Finite True 0"
  "ParseFloat (''1'' @ replicate 309 (CHR ''0'')) = Infinite False"
  by code_simp+

section \<open>Properties of the identifier\<close>

lemma cleaned_id_take:
  "cleaned_id address city = take 25 (filter is_id_char (ToLower (address @ city)))"
  by (simp add: cleaned_id_def Let_def)

lemma cleaned_id_length: "length (cleaned_id address city) \<le> 25"
  by (simp add: cleaned_id_take)

lemma generatePropertyID_sentinel_iff:
  "generatePropertyID a c = ''prop_unknown'' \<longleftrightarrow>
     cleaned_id a c = [] \<or> cleaned_id a c = ''unknown''"
  by (auto simp: generatePropertyID_def Let_def)

lemma generatePropertyID_beyond_ASCII:
  "generatePropertyID [char_of (226 :: int), char_of (132 :: int), char_of (170 :: int)] [] =
     ''prop_k''"
  "generatePropertyID ([char_of (196 :: int), char_of (176 :: int)] @ ''stanbul'') [] =
     ''prop_istanbul''"
  "generatePropertyID [char_of (195 :: int), char_of (137 :: int)] ''A1'' = ''prop_a1''"
  "generatePropertyID [char_of (226 :: int)] [char_of (132 :: int), char_of (170 :: int)] =
     ''prop_k''"
  by code_simp+

text \<open>
  C2, as stated, fails in its last clause: the sentinel \<open>unknown\<close> is itself made
  of lowercase letters, so the address \<open>unknown\<close> with an empty city has a
  non-empty cleaned text and still gets the identifier of the empty input.
\<close>

theorem generatePropertyID_sentinel_collision:
  "cleaned_id ''unknown'' '''' \<noteq> '''' \<and> cleaned_id '''' '''' = '''' \<and>
   generatePropertyID ''unknown'' '''' = generatePropertyID '''' ''''"
  by code_simp

text \<open>
  C2 (amended): \<open>generatePropertyID\<close> is a function of its two arguments that
  lower-cases the concatenation, keeps only lowercase letters and digits, truncates to
  at most 25 characters and prefixes \<open>prop_\<close>, with the sentinel \<open>unknown\<close> in place
  of an empty cleaned text (as the specification's contract, \<open>id_spec\<close>, says). The
  result is never empty, has between 6 and 30 characters, all of them after the
  prefix lowercase letters or digits, and
  \<open>id("","")\<close> is \<open>prop_unknown\<close>. An input gets the sentinel identifier exactly
  when its cleaned text is empty or is the text \<open>unknown\<close> itself.
\<close>

theorem generatePropertyID_contract:
  "generatePropertyID address city = id_spec address city \<and>
   generatePropertyID address city \<noteq> [] \<and>
   take 5 (generatePropertyID address city) = ''prop_'' \<and>
   6 \<le> length (generatePropertyID address city) \<and>
   length (generatePropertyID address city) \<le> 30 \<and>
   list_all is_id_char (drop 5 (generatePropertyID address city)) \<and>
   generatePropertyID '''' '''' = ''prop_unknown'' \<and>
   (generatePropertyID address city = generatePropertyID '''' '''' \<longleftrightarrow>
      cleaned_id address city = [] \<or> cleaned_id address city = ''unknown'')"
proof -
  have cls: "is_id_char = (\<lambda>c. is_lower c \<or> is_digit c)"
    by (rule ext) (simp add: is_id_char_def)
  have "cleaned_id address city =
      take 25 (filter (\<lambda>c. is_lower c \<or> is_digit c) (ToLower (address @ city)))"
    by (simp only: cleaned_id_take cls)
  then have spec: "generatePropertyID address city = id_spec address city"
    by (simp only: generatePropertyID_def id_spec_def Let_def)
  have len: "length (cleaned_id address city) \<le> 25"
    by (rule cleaned_id_length)
  have ne: "generatePropertyID address city \<noteq> []"
    by (simp add: generatePropertyID_def Let_def)
  have pre: "take 5 (generatePropertyID address city) = ''prop_''"
    by (simp add: generatePropertyID_def Let_def)
  have lo: "6 \<le> length (generatePropertyID address city)"
    by (cases "cleaned_id address city") (simp_all add: generatePropertyID_def Let_def)
  have hi: "length (generatePropertyID address city) \<le> 30"
    using len by (simp add: generatePropertyID_def Let_def)
  have sentinel: "list_all is_id_char ''unknown''"
    by code_simp
  have kept: "list_all is_id_char (cleaned_id address city)"
    unfolding cleaned_id_take list_all_iff by (auto dest: in_set_takeD)
  have cs: "list_all is_id_char (drop 5 (generatePropertyID address city))"
  proof (cases "cleaned_id address city = []")
    case True
    then have "drop 5 (generatePropertyID address city) = ''unknown''"
      by (simp add: generatePropertyID_def Let_def)
    with sentinel show ?thesis by (simp only:)
  next
    case False
    then have "drop 5 (generatePropertyID address city) = cleaned_id address city"
      by (simp add: generatePropertyID_def Let_def)
    with kept show ?thesis by (simp only:)
  qed
  have empty: "generatePropertyID '''' '''' = ''prop_unknown''"
    by (simp add: generatePropertyID_def cleaned_id_def ToLower_def Let_def)
  have coll: "generatePropertyID address city = generatePropertyID '''' '''' \<longleftrightarrow>
      cleaned_id address city = [] \<or> cleaned_id address city = ''unknown''"
    unfolding empty by (rule generatePropertyID_sentinel_iff)
  from spec ne pre lo hi cs empty coll show ?thesis by blast
qed

section \<open>Properties of the page extractor and of the crawl\<close>

lemma on_match_sel:
  "(\<And>m1 y. sel (upd m1 y) = sel y) \<Longrightarrow> sel (on_match m upd x) = sel x"
  by (auto simp: on_match_def split: list.splits)

lemma foldl_sel:
  "(\<And>y a. sel (f y a) = sel y) \<Longrightarrow> sel (foldl f x xs) = sel x"
  by (induction xs arbitrary: x) simp_all

lemmas on_match_keeps =
  on_match_sel [where sel = Address] on_match_sel [where sel = City]
  on_match_sel [where sel = State] on_match_sel [where sel = ZipCode]
  on_match_sel [where sel = Status] on_match_sel [where sel = PricePerSqFt]

lemma chunk_fields_keeps:
  "Address (chunk_fields chunk p) = Address p"
  "City (chunk_fields chunk p) = City p"
  "State (chunk_fields chunk p) = State p"
  "ZipCode (chunk_fields chunk p) = ZipCode p"
  "Status (chunk_fields chunk p) = Status p"
  "PricePerSqFt (chunk_fields chunk p) = PricePerSqFt p"
  by (simp_all add: chunk_fields_def on_match_keeps)

lemma set_PricePerSqFt_keeps:
  "Address (set_PricePerSqFt p) = Address p"
  "City (set_PricePerSqFt p) = City p"
  "State (set_PricePerSqFt p) = State p"
  "ZipCode (set_PricePerSqFt p) = ZipCode p"
  "Status (set_PricePerSqFt p) = Status p"
  "Price (set_PricePerSqFt p) = Price p"
  "SquareFeet (set_PricePerSqFt p) = SquareFeet p"
  "ID (set_PricePerSqFt p) = ID p"
  by (simp_all add: set_PricePerSqFt_def)

lemma PricePerSqFt_set:
  "PricePerSqFt (set_PricePerSqFt p) =
     (if 0 < Price p \<and> 0 < SquareFeet p then Price p div SquareFeet p else PricePerSqFt p)"
  by (simp add: set_PricePerSqFt_def)

lemma set_PricePerSqFt_ok:
  "PricePerSqFt p = 0 \<Longrightarrow> ppsf_ok (set_PricePerSqFt p)"
  by (simp add: ppsf_ok_def PricePerSqFt_set set_PricePerSqFt_keeps)

lemma candidate_facts:
  assumes "candidate pageText address = Some p"
  shows "ppsf_ok p"
    and "Address p \<noteq> [] \<Longrightarrow> honolulu_sold p"
    and "Address p \<noteq> [] \<Longrightarrow> ID p = generatePropertyID (Address p) (City p)"
    and "Status p = ''sold''"
proof -
  note keeps = set_PricePerSqFt_keeps chunk_fields_keeps
  show "ppsf_ok p"
    using assms
    by (auto simp: candidate_def Let_def ppsf_ok_def PricePerSqFt_set keeps zero_Property_def
        split: if_splits option.splits)
  show "Status p = ''sold''"
    using assms
    by (auto simp: candidate_def Let_def keeps split: if_splits option.splits)
  show "honolulu_sold p" if "Address p \<noteq> []"
    using assms that
    by (auto simp: candidate_def Let_def honolulu_sold_def keeps zero_Property_def
        split: if_splits option.splits)
  show "ID p = generatePropertyID (Address p) (City p)" if "Address p \<noteq> []"
    using assms that
    by (auto simp: candidate_def Let_def keeps split: if_splits option.splits)
qed

lemma set_map_filter:
  "set (List.map_filter f xs) = {y. \<exists>x \<in> set xs. f x = Some y}"
  by (induction xs) (auto simp: map_filter_simps split: option.splits)

lemma candidates_iff:
  "p \<in> set (candidates pageText) \<longleftrightarrow>
     (\<exists>a \<in> set (FindAllString addressRegex pageText). candidate pageText a = Some p)"
  by (simp add: candidates_def set_map_filter)

lemma extract_properties_iff:
  "p \<in> set (extract_properties pageText) \<longleftrightarrow> p \<in> set (candidates pageText) \<and> admitted p"
  by (simp add: extract_properties_def)

lemma extracted_facts:
  assumes "p \<in> set (extract_properties pageText)"
  shows "Address p \<noteq> []" "0 < Price p" "honolulu_sold p" "ppsf_ok p"
    "ID p = generatePropertyID (Address p) (City p)" "ID p \<noteq> []"
proof -
  from assms obtain a where c: "candidate pageText a = Some p" and adm: "admitted p"
    by (auto simp: extract_properties_iff candidates_iff)
  from adm show "Address p \<noteq> []" "0 < Price p" by (simp_all add: admitted_def)
  then show "honolulu_sold p" "ppsf_ok p" "ID p = generatePropertyID (Address p) (City p)"
    using candidate_facts [OF c] by simp_all
  then show "ID p \<noteq> []" by (simp add: generatePropertyID_def Let_def)
qed

lemma scrapePage_Inr:
  "scrapePage client url = Inr props \<Longrightarrow> \<exists>doc st. client url = Response 200 st (Parsed doc) \<and> props = extract_properties (Text doc)"
  by (auto simp: scrapePage_def split: Outcome.splits Body.splits if_splits)

lemma add_page_append: "add_page (add_page m ps) qs = add_page m (ps @ qs)"
  by (simp add: add_page_def)

lemma crawl_unfold:
  "crawl scrape url 1 m fetched =
     (case scrape (url 1) of
        Inl e \<Rightarrow> (fetched @ [1], Inl (page_error 1 e))
      | Inr p1 \<Rightarrow>
          if length p1 < 20 then (fetched @ [1], Inr (add_page m p1))
          else (case scrape (url 2) of
                  Inl e \<Rightarrow> (fetched @ [1, 2], Inl (page_error 2 e))
                | Inr p2 \<Rightarrow>
                    if length p2 < 20 then (fetched @ [1, 2], Inr (add_page m (p1 @ p2)))
                    else (case scrape (url 3) of
                            Inl e \<Rightarrow> (fetched @ [1, 2, 3], Inl (page_error 3 e))
                          | Inr p3 \<Rightarrow> (fetched @ [1, 2, 3], Inr (add_page m (p1 @ p2 @ p3))))))"
proof -
  have c4: "crawl scrape url (Suc (Suc (Suc (Suc 0)))) m' f' = (f', Inr m')" for m' f'
    by (subst crawl.simps) simp
  have c3: "crawl scrape url (Suc (Suc (Suc 0))) m' f' =
      (case scrape (url (Suc (Suc (Suc 0)))) of
         Inl e \<Rightarrow> (f' @ [Suc (Suc (Suc 0))], Inl (page_error (Suc (Suc (Suc 0))) e))
       | Inr p3 \<Rightarrow> (f' @ [Suc (Suc (Suc 0))], Inr (add_page m' p3)))" for m' f'
    by (subst crawl.simps) (auto simp: c4 Let_def split: sum.splits)
  have c2: "crawl scrape url (Suc (Suc 0)) m' f' =
      (case scrape (url (Suc (Suc 0))) of
         Inl e \<Rightarrow> (f' @ [Suc (Suc 0)], Inl (page_error (Suc (Suc 0)) e))
       | Inr p2 \<Rightarrow> if length p2 < 20 then (f' @ [Suc (Suc 0)], Inr (add_page m' p2))
                   else crawl scrape url (Suc (Suc (Suc 0))) (add_page m' p2)
                          (f' @ [Suc (Suc 0)]))" for m' f'
    by (subst crawl.simps) (auto simp: Let_def split: sum.splits)
  show ?thesis
    by (subst crawl.simps)
      (auto simp: c2 c3 numeral_2_eq_2 numeral_3_eq_3 Let_def add_page_append
        split: sum.splits)
qed

lemma ScrapeNeighborhood_with_unfold:
  "ScrapeNeighborhood_with scrape city state neighborhood status =
     (let url = page_url city state neighborhood status in
      case scrape (url 1) of
        Inl e \<Rightarrow> ([1], Inl (page_error 1 e))
      | Inr p1 \<Rightarrow>
          if length p1 < 20 then ([1], Inr (map snd (add_page [] p1)))
          else (case scrape (url 2) of
                  Inl e \<Rightarrow> ([1, 2], Inl (page_error 2 e))
                | Inr p2 \<Rightarrow>
                    if length p2 < 20 then ([1, 2], Inr (map snd (add_page [] (p1 @ p2))))
                    else (case scrape (url 3) of
                            Inl e \<Rightarrow> ([1, 2, 3], Inl (page_error 3 e))
                          | Inr p3 \<Rightarrow> ([1, 2, 3], Inr (map snd (add_page [] (p1 @ p2 @ p3)))))))"
  unfolding ScrapeNeighborhood_with_def crawl_unfold
  by (auto simp: Let_def split: sum.splits)

lemma crawl_result:
  assumes "ScrapeNeighborhood_with scrape city state neighborhood status = (fetched, Inr props)"
  shows "props = map snd (add_page []
            (pages_yield scrape (page_url city state neighborhood status) fetched))"
  using assms
  by (auto simp: ScrapeNeighborhood_with_unfold pages_yield_def Let_def
      split: sum.splits if_splits)

lemma update_values: "snd ` set (AList.update k v al) \<subseteq> insert v (snd ` set al)"
  by (induction al) auto

lemma add_page_values: "snd ` set (add_page m ps) \<subseteq> snd ` set m \<union> set ps"
proof (induction ps arbitrary: m)
  case Nil
  then show ?case by (simp add: add_page_def)
next
  case (Cons p ps)
  have "add_page m (p # ps) = add_page (if ID p \<noteq> [] then AList.update (ID p) p m else m) ps"
    by (simp add: add_page_def)
  then show ?case
    using Cons.IH [of "if ID p \<noteq> [] then AList.update (ID p) p m else m"]
      update_values [of "ID p" p m]
    by (auto split: if_splits)
qed

lemma pages_yield_scraped:
  assumes "p \<in> set (pages_yield scrape url fetched)"
  shows "\<exists>u ps. scrape u = Inr ps \<and> p \<in> set ps"
proof -
  from assms obtain page
    where "p \<in> set (case scrape (url page) of Inl err \<Rightarrow> [] | Inr ps \<Rightarrow> ps)"
    by (auto simp: pages_yield_def)
  then show ?thesis by (cases "scrape (url page)") auto
qed

lemma crawl_values:
  assumes "ScrapeNeighborhood_with scrape city state neighborhood status = (fetched, Inr props)"
    and "p \<in> set props"
  shows "\<exists>u ps. scrape u = Inr ps \<and> p \<in> set ps"
proof -
  from crawl_result [OF assms(1)] assms(2)
  have "p \<in> snd ` set (add_page []
            (pages_yield scrape (page_url city state neighborhood status) fetched))"
    by simp
  with add_page_values have "p \<in> set (pages_yield scrape (page_url city state neighborhood status) fetched)"
    by fastforce
  then show ?thesis by (rule pages_yield_scraped)
qed

lemma ScrapeNeighborhood_extracted:
  assumes "ScrapeNeighborhood client city state neighborhood status = (fetched, Inr props)"
    and "p \<in> set props"
  shows "\<exists>pageText. p \<in> set (extract_properties pageText)"
proof -
  from crawl_values [OF assms(1) [unfolded ScrapeNeighborhood_def] assms(2)]
  obtain u ps where "scrapePage client u = Inr ps" "p \<in> set ps" by blast
  then show ?thesis by (auto dest: scrapePage_Inr)
qed

lemma ex_page: "extract_properties ex_text = [ex_record]"
  unfolding ex_text_def ex_record_def by code_simp

lemma ex_page_no_price:
  "candidates ''1 A St,Honolulu,HI96822'' = [ex_record\<lparr>Price := 0, SquareFeet := 0, PricePerSqFt := 0\<rparr>]"
  unfolding ex_record_def by code_simp

lemma ex_record_fields:
  "ID ex_record = ''prop_1asthonolulu''" "Address ex_record = ''1 A St''"
  "City ex_record = ''Honolulu''" "State ex_record = ''HI''" "ZipCode ex_record = ''96822''"
  "Status ex_record = ''sold''" "Price ex_record = 9" "SquareFeet ex_record = 4"
  "PricePerSqFt ex_record = 2"
  by (simp_all add: ex_record_def zero_Property_def)

lemma ex_crawl:
  "ScrapeNeighborhood ex_client city state neighborhood status = ([1], Inr [ex_record])"
  by (simp add: ScrapeNeighborhood_def ScrapeNeighborhood_with_unfold scrapePage_def
      ex_client_def ex_doc_def ex_page add_page_def ex_record_fields)

text \<open>
  C3: for every page text, every record that the text-proximity extractor returns has
  a non-empty address and a strictly positive price; a candidate whose address is
  empty or whose price is 0 is not in the output, whatever its other fields hold. The
  same holds for every record a successful \<open>scrapePage\<close> returns and for every record
  in the result of the multi-page crawl.
\<close>

theorem scrapePage_admission:
  "(\<forall>p \<in> set (extract_properties pageText). Address p \<noteq> [] \<and> 0 < Price p) \<and>
   (\<forall>c \<in> set (candidates pageText).
      Address c = [] \<or> Price c = 0 \<longrightarrow> c \<notin> set (extract_properties pageText)) \<and>
   (\<forall>props. scrapePage client url = Inr props \<longrightarrow>
      (\<forall>p \<in> set props. Address p \<noteq> [] \<and> 0 < Price p)) \<and>
   (\<forall>fetched props.
      ScrapeNeighborhood client city state neighborhood status = (fetched, Inr props) \<longrightarrow>
      (\<forall>p \<in> set props. Address p \<noteq> [] \<and> 0 < Price p))"
proof (intro conjI allI impI ballI)
  fix p assume "p \<in> set (extract_properties pageText)"
  then show "Address p \<noteq> []" "0 < Price p" by (rule extracted_facts)+
next
  fix c assume "c \<in> set (candidates pageText)" "Address c = [] \<or> Price c = 0"
  then show "c \<notin> set (extract_properties pageText)"
    by (auto simp: extract_properties_def admitted_def)
next
  fix props p assume "scrapePage client url = Inr props" "p \<in> set props"
  then obtain t where "p \<in> set (extract_properties t)"
    by (auto dest: scrapePage_Inr)
  then show "Address p \<noteq> []" "0 < Price p" by (rule extracted_facts)+
next
  fix fetched props p
  assume "ScrapeNeighborhood client city state neighborhood status = (fetched, Inr props)"
    "p \<in> set props"
  then obtain t where "p \<in> set (extract_properties t)"
    by (blast dest: ScrapeNeighborhood_extracted)
  then show "Address p \<noteq> []" "0 < Price p" by (rule extracted_facts)+
qed

theorem scrapePage_admission_witness:
  "ex_record \<in> set (extract_properties ex_text) \<and> Address ex_record \<noteq> [] \<and> 0 < Price ex_record \<and>
   ex_record\<lparr>Price := 0, SquareFeet := 0, PricePerSqFt := 0\<rparr> \<in> set (candidates ''1 A St,Honolulu,HI96822'') \<and>
   Price (ex_record\<lparr>Price := 0, SquareFeet := 0, PricePerSqFt := 0\<rparr>) = 0 \<and>
   ex_record\<lparr>Price := 0, SquareFeet := 0, PricePerSqFt := 0\<rparr> \<notin> set (extract_properties ''1 A St,Honolulu,HI96822'') \<and>
   scrapePage ex_client ''u'' = Inr [ex_record] \<and>
   ScrapeNeighborhood ex_client ''Honolulu'' ''HI'' ''manoa'' ''sold'' = ([1], Inr [ex_record])"
proof -
  have a: "ex_record \<in> set (extract_properties ex_text)"
    by (simp add: ex_page)
  have b: "ex_record\<lparr>Price := 0, SquareFeet := 0, PricePerSqFt := 0\<rparr> \<in> set (candidates ''1 A St,Honolulu,HI96822'')"
    by (simp add: ex_page_no_price)
  have c: "scrapePage ex_client ''u'' = Inr [ex_record]"
    by (simp add: scrapePage_def ex_client_def ex_doc_def ex_page)
  from scrapePage_admission [of ex_text ex_client "''u''" "''Honolulu''" "''HI''" "''manoa''"
      "''sold''"]
    scrapePage_admission [of "''1 A St,Honolulu,HI96822''" ex_client "''u''" "''Honolulu''"
      "''HI''" "''manoa''" "''sold''"] a b c ex_crawl
  show ?thesis by (simp add: ex_record_def zero_Property_def)
qed

text \<open>
  C10: for every page text and every requested city, state, neighborhood and status,
  every record admitted by the text-proximity extractor, and so every record in the
  result of \<open>ScrapeNeighborhood\<close>, has status \<open>sold\<close>, city \<open>Honolulu\<close>, state \<open>HI\<close> and
  postal code \<open>96822\<close>.
\<close>

theorem scrapePage_hardcoded_location:
  "(\<forall>p \<in> set (extract_properties pageText).
      Status p = ''sold'' \<and> City p = ''Honolulu'' \<and> State p = ''HI'' \<and> ZipCode p = ''96822'') \<and>
   (\<forall>fetched props.
      ScrapeNeighborhood client city state neighborhood status = (fetched, Inr props) \<longrightarrow>
      (\<forall>p \<in> set props.
         Status p = ''sold'' \<and> City p = ''Honolulu'' \<and> State p = ''HI'' \<and> ZipCode p = ''96822''))"
proof -
  have ex: "Status p = ''sold'' \<and> City p = ''Honolulu'' \<and> State p = ''HI'' \<and> ZipCode p = ''96822''"
    if "p \<in> set (extract_properties t)" for p t
    using extracted_facts(3) [OF that] by (simp add: honolulu_sold_def)
  have "\<exists>t. p \<in> set (extract_properties t)"
    if "ScrapeNeighborhood client city state neighborhood status = (fetched, Inr props)"
      and "p \<in> set props" for fetched props p
    using that by (rule ScrapeNeighborhood_extracted)
  with ex show ?thesis by blast
qed

theorem scrapePage_hardcoded_location_witness:
  "ex_record \<in> set (extract_properties ex_text) \<and>
   ScrapeNeighborhood ex_client ''Hilo'' ''CA'' ''downtown'' ''for_sale'' = ([1], Inr [ex_record]) \<and>
   Status ex_record = ''sold'' \<and> City ex_record = ''Honolulu'' \<and> State ex_record = ''HI'' \<and>
   ZipCode ex_record = ''96822''"
proof -
  have a: "ex_record \<in> set (extract_properties ex_text)"
    by (simp add: ex_page)
  from scrapePage_hardcoded_location [of ex_text ex_client "''Hilo''" "''CA''" "''downtown''"
      "''for_sale''"] a ex_crawl [of "''Hilo''" "''CA''" "''downtown''" "''for_sale''"]
  show ?thesis by simp
qed

text \<open>
  C4: the pagination controller asks for the pages in increasing order from page 1,
  for at most three pages, and for no page after the first page that fails or yields
  fewer than 20 records: the pages asked for are \<open>[1]\<close>, \<open>[1, 2]\<close> or \<open>[1, 2, 3]\<close>
  according to where the first such page is. When the pages 1 to 3 yield 20, 20
  and 5 records, exactly the pages 1, 2 and 3 are asked for, and the crawl ends with
  the merged records.
\<close>

theorem crawl_page_order:
  "fst (ScrapeNeighborhood_with scrape city state neighborhood status) =
     (if stops scrape (page_url city state neighborhood status 1) then [1]
      else if stops scrape (page_url city state neighborhood status 2) then [1, 2]
      else [1, 2, 3]) \<and>
   (\<forall>p1 p2 p3.
      scrape (page_url city state neighborhood status 1) = Inr p1 \<and> length p1 = 20 \<and>
      scrape (page_url city state neighborhood status 2) = Inr p2 \<and> length p2 = 20 \<and>
      scrape (page_url city state neighborhood status 3) = Inr p3 \<and> length p3 = 5 \<longrightarrow>
      ScrapeNeighborhood_with scrape city state neighborhood status =
        ([1, 2, 3], Inr (map snd (add_page [] (p1 @ p2 @ p3)))))"
  by (auto simp: ScrapeNeighborhood_with_unfold stops_def Let_def split: sum.splits)

lemma ex_urls:
  "page_url ''honolulu'' ''hi'' ''manoa'' ''sold'' 1 =
     ''https://www.homes.com/honolulu-hi/manoa-neighborhood/sold/''"
  "page_url ''honolulu'' ''hi'' ''manoa'' ''sold'' 2 =
     ''https://www.homes.com/honolulu-hi/manoa-neighborhood/sold/p2/''"
  "page_url ''honolulu'' ''hi'' ''manoa'' ''sold'' 3 =
     ''https://www.homes.com/honolulu-hi/manoa-neighborhood/sold/p3/''"
  by code_simp+

theorem crawl_page_order_witness:
  "mock_20_20_5 (page_url ''honolulu'' ''hi'' ''manoa'' ''sold'' 1) =
     Inr (replicate 20 (zero_Property\<lparr>ID := ''b''\<rparr>)) \<and>
   mock_20_20_5 (page_url ''honolulu'' ''hi'' ''manoa'' ''sold'' 2) =
     Inr (replicate 20 (zero_Property\<lparr>ID := ''b''\<rparr>)) \<and>
   mock_20_20_5 (page_url ''honolulu'' ''hi'' ''manoa'' ''sold'' 3) =
     Inr (replicate 5 (zero_Property\<lparr>ID := ''a''\<rparr>)) \<and>
   fst (ScrapeNeighborhood_with mock_20_20_5 ''honolulu'' ''hi'' ''manoa'' ''sold'') = [1, 2, 3]"
proof -
  have m: "mock_20_20_5 (page_url ''honolulu'' ''hi'' ''manoa'' ''sold'' 1) =
       Inr (replicate 20 (zero_Property\<lparr>ID := ''b''\<rparr>))"
    "mock_20_20_5 (page_url ''honolulu'' ''hi'' ''manoa'' ''sold'' 2) =
       Inr (replicate 20 (zero_Property\<lparr>ID := ''b''\<rparr>))"
    "mock_20_20_5 (page_url ''honolulu'' ''hi'' ''manoa'' ''sold'' 3) =
       Inr (replicate 5 (zero_Property\<lparr>ID := ''a''\<rparr>))"
    unfolding mock_20_20_5_def ex_urls by simp_all
  from crawl_page_order [of mock_20_20_5 "''honolulu''" "''hi''" "''manoa''" "''sold''"] m
  show ?thesis by simp
qed

lemma crawl_failure:
  assumes "page \<in> set (fst (ScrapeNeighborhood_with scrape city state neighborhood status))"
    and "scrape (page_url city state neighborhood status page) = Inl err"
  shows "snd (ScrapeNeighborhood_with scrape city state neighborhood status) =
           Inl (page_error page err)"
  using assms
  by (auto simp: ScrapeNeighborhood_with_unfold Let_def split: sum.splits if_splits)

lemma scrapePage_failures:
  "client url = RequestError err \<Longrightarrow> scrapePage client url = Inl err"
  "client url = TransportError err \<Longrightarrow> scrapePage client url = Inl err"
  "client url = Response code st body \<Longrightarrow> code \<noteq> 200 \<Longrightarrow>
     scrapePage client url = Inl (''HTTP '' @ string_of_nat code @ '': '' @ st)"
  "client url = Response 200 st (Unparseable err) \<Longrightarrow> scrapePage client url = Inl err"
  by (simp_all add: scrapePage_def)

text \<open>
  C6: when the page scraper fails on a page that the crawl asks for, the crawl
  returns an error, hence no records, whose message is
  \<open>failed to scrape page N: \<close> followed by the page scraper's message, \<open>N\<close> being the
  number of the failing page. For \<open>ScrapeNeighborhood\<close> this covers a transport
  error, a document that does not parse, and a status code other than 200 (whose
  message names the code).
\<close>

theorem crawl_aborts_on_failure:
  "(page \<in> set (fst (ScrapeNeighborhood_with scrape city state neighborhood status)) \<and>
      scrape (page_url city state neighborhood status page) = Inl err \<longrightarrow>
      snd (ScrapeNeighborhood_with scrape city state neighborhood status) =
        Inl (''failed to scrape page '' @ string_of_nat page @ '': '' @ err)) \<and>
   (page \<in> set (fst (ScrapeNeighborhood client city state neighborhood status)) \<and>
      (client (page_url city state neighborhood status page) = TransportError err \<or>
       client (page_url city state neighborhood status page) = Response 200 st (Unparseable err))
      \<longrightarrow>
      snd (ScrapeNeighborhood client city state neighborhood status) =
        Inl (''failed to scrape page '' @ string_of_nat page @ '': '' @ err)) \<and>
   (page \<in> set (fst (ScrapeNeighborhood client city state neighborhood status)) \<and>
      client (page_url city state neighborhood status page) = Response code st body \<and>
      code \<noteq> 200 \<longrightarrow>
      snd (ScrapeNeighborhood client city state neighborhood status) =
        Inl (''failed to scrape page '' @ string_of_nat page @ '': HTTP '' @ string_of_nat code @
             '': '' @ st))"
proof (intro conjI impI)
  assume "page \<in> set (fst (ScrapeNeighborhood_with scrape city state neighborhood status)) \<and>
      scrape (page_url city state neighborhood status page) = Inl err"
  then show "snd (ScrapeNeighborhood_with scrape city state neighborhood status) =
        Inl (''failed to scrape page '' @ string_of_nat page @ '': '' @ err)"
    using crawl_failure [of page scrape city state neighborhood status err]
    by (simp add: page_error_def)
next
  assume a: "page \<in> set (fst (ScrapeNeighborhood client city state neighborhood status)) \<and>
      (client (page_url city state neighborhood status page) = TransportError err \<or>
       client (page_url city state neighborhood status page) = Response 200 st (Unparseable err))"
  then have "scrapePage client (page_url city state neighborhood status page) = Inl err"
    by (auto simp: scrapePage_failures)
  with a show "snd (ScrapeNeighborhood client city state neighborhood status) =
        Inl (''failed to scrape page '' @ string_of_nat page @ '': '' @ err)"
    using crawl_failure [of page "scrapePage client" city state neighborhood status err]
    by (simp add: page_error_def ScrapeNeighborhood_def)
next
  assume a: "page \<in> set (fst (ScrapeNeighborhood client city state neighborhood status)) \<and>
      client (page_url city state neighborhood status page) = Response code st body \<and>
      code \<noteq> 200"
  then have "scrapePage client (page_url city state neighborhood status page) =
      Inl (''HTTP '' @ string_of_nat code @ '': '' @ st)"
    by (auto simp: scrapePage_failures)
  with a show "snd (ScrapeNeighborhood client city state neighborhood status) =
        Inl (''failed to scrape page '' @ string_of_nat page @ '': HTTP '' @ string_of_nat code @
             '': '' @ st)"
    using crawl_failure [of page "scrapePage client" city state neighborhood status
        "''HTTP '' @ string_of_nat code @ '': '' @ st"]
    by (simp add: page_error_def ScrapeNeighborhood_def)
qed

lemma string_of_nat_ex: "string_of_nat 1 = ''1''" "string_of_nat 2 = ''2''"
  "string_of_nat 3 = ''3''" "string_of_nat 403 = ''403''"
  by code_simp+

theorem crawl_aborts_on_failure_witness:
  "ScrapeNeighborhood_with mock_page2_fails ''honolulu'' ''hi'' ''manoa'' ''sold'' =
     ([1, 2], Inl ''failed to scrape page 2: HTTP 403: 403 Forbidden'') \<and>
   mock_page2_fails (page_url ''honolulu'' ''hi'' ''manoa'' ''sold'' 1) = Inr (replicate 20 ex_record) \<and>
   mock_page2_fails (page_url ''honolulu'' ''hi'' ''manoa'' ''sold'' 2) = Inl ''HTTP 403: 403 Forbidden'' \<and>
   ScrapeNeighborhood client_down ''honolulu'' ''hi'' ''manoa'' ''sold'' =
     ([1], Inl ''failed to scrape page 1: dial tcp: i/o timeout'') \<and>
   ScrapeNeighborhood client_403 ''honolulu'' ''hi'' ''manoa'' ''sold'' =
     ([1], Inl ''failed to scrape page 1: HTTP 403: 403 Forbidden'')"
proof -
  have m: "mock_page2_fails (page_url ''honolulu'' ''hi'' ''manoa'' ''sold'' 1) = Inr (replicate 20 ex_record)"
    "mock_page2_fails (page_url ''honolulu'' ''hi'' ''manoa'' ''sold'' 2) = Inl ''HTTP 403: 403 Forbidden''"
    unfolding mock_page2_fails_def ex_urls by simp_all
  have f1: "fst (ScrapeNeighborhood_with mock_page2_fails ''honolulu'' ''hi'' ''manoa'' ''sold'') = [1, 2]"
    unfolding ScrapeNeighborhood_with_unfold Let_def m by simp
  have f2: "fst (ScrapeNeighborhood client_down ''honolulu'' ''hi'' ''manoa'' ''sold'') = [1]"
    unfolding ScrapeNeighborhood_def ScrapeNeighborhood_with_unfold Let_def
    by (simp add: scrapePage_def client_down_def)
  have f3: "fst (ScrapeNeighborhood client_403 ''honolulu'' ''hi'' ''manoa'' ''sold'') = [1]"
    unfolding ScrapeNeighborhood_def ScrapeNeighborhood_with_unfold Let_def
    by (simp add: scrapePage_def client_403_def)
  from crawl_aborts_on_failure [of 2 mock_page2_fails "''honolulu''" "''hi''" "''manoa''" "''sold''"
      "''HTTP 403: 403 Forbidden''" client_down "[]" 403
      "Parsed (ex_doc ''Access denied'')"]
  have r1: "snd (ScrapeNeighborhood_with mock_page2_fails ''honolulu'' ''hi'' ''manoa'' ''sold'') =
      Inl ''failed to scrape page 2: HTTP 403: 403 Forbidden''"
    using m f1 by (simp add: string_of_nat_ex)
  from crawl_aborts_on_failure [of 1 mock_page2_fails "''honolulu''" "''hi''" "''manoa''" "''sold''"
      "''dial tcp: i/o timeout''" client_down "[]" 403
      "Parsed (ex_doc ''Access denied'')"]
  have r2: "snd (ScrapeNeighborhood client_down ''honolulu'' ''hi'' ''manoa'' ''sold'') =
      Inl ''failed to scrape page 1: dial tcp: i/o timeout''"
    using f2 by (simp add: string_of_nat_ex client_down_def)
  from crawl_aborts_on_failure [of 1 mock_page2_fails "''honolulu''" "''hi''" "''manoa''" "''sold''"
      "[]" client_403 "''403 Forbidden''" 403 "Parsed (ex_doc ''Access denied'')"]
  have r3: "snd (ScrapeNeighborhood client_403 ''honolulu'' ''hi'' ''manoa'' ''sold'') =
      Inl ''failed to scrape page 1: HTTP 403: 403 Forbidden''"
    using f3 by (simp add: string_of_nat_ex client_403_def)
  from m f1 f2 f3 r1 r2 r3 show ?thesis
    by (simp add: prod_eq_iff)
qed

section \<open>Properties of the deduplication and of the detail-page extractor\<close>

lemma add_page_Cons:
  "add_page m (p # ps) = add_page (if ID p \<noteq> [] then AList.update (ID p) p m else m) ps"
  by (simp add: add_page_def)

lemma map_of_add_page:
  "map_of (add_page m ps) k =
     (if [q \<leftarrow> ps. ID q = k \<and> ID q \<noteq> []] = [] then map_of m k
      else Some (last [q \<leftarrow> ps. ID q = k \<and> ID q \<noteq> []]))"
proof (induction ps arbitrary: m)
  case Nil
  then show ?case by (simp add: add_page_def)
next
  case (Cons p ps)
  show ?case
    unfolding add_page_Cons Cons.IH by (auto simp: update_conv')
qed

lemma distinct_add_page: "distinct (map fst m) \<Longrightarrow> distinct (map fst (add_page m ps))"
proof (induction ps arbitrary: m)
  case Nil
  then show ?case by (simp add: add_page_def)
next
  case (Cons p ps)
  show ?case
    unfolding add_page_Cons by (rule Cons.IH) (simp add: Cons.prems distinct_update)
qed

lemma keys_add_page:
  "fst ` set (add_page m ps) = fst ` set m \<union> ID ` {p \<in> set ps. ID p \<noteq> []}"
proof (induction ps arbitrary: m)
  case Nil
  then show ?case by (simp add: add_page_def)
next
  case (Cons p ps)
  show ?case
    unfolding add_page_Cons Cons.IH by (auto simp: dom_update)
qed

lemma update_entries: "set (AList.update k v al) \<subseteq> insert (k, v) (set al)"
  by (induction al) auto

lemma entries_add_page:
  "\<forall>(k, v) \<in> set m. k = ID v \<Longrightarrow> \<forall>(k, v) \<in> set (add_page m ps). k = ID v"
proof (induction ps arbitrary: m)
  case Nil
  then show ?case by (simp add: add_page_def)
next
  case (Cons p ps)
  show ?case
    unfolding add_page_Cons
    using Cons.prems update_entries [of "ID p" p m] by (intro Cons.IH) auto
qed

lemma dedup_add_page:
  "dedup_of (filter (\<lambda>p. ID p \<noteq> []) ys) (map snd (add_page [] ys))"
proof -
  define m where "m = add_page [] ys"
  have ent: "\<forall>(k, v) \<in> set m. k = ID v"
    unfolding m_def by (rule entries_add_page) simp
  then have ids: "map ID (map snd m) = map fst m"
    by (auto simp: case_prod_beta)
  have dist: "distinct (map fst m)"
    unfolding m_def by (rule distinct_add_page) simp
  have keys: "fst ` set m = ID ` set (filter (\<lambda>p. ID p \<noteq> []) ys)"
    unfolding m_def keys_add_page by auto
  have len: "length (map snd m) = card (ID ` set (filter (\<lambda>p. ID p \<noteq> []) ys))"
    using distinct_card [OF dist] keys by simp
  have lww: "p = last (filter (\<lambda>q. ID q = ID p) (filter (\<lambda>p. ID p \<noteq> []) ys))"
    if "p \<in> set (map snd m)" for p
  proof -
    from that ent have "(ID p, p) \<in> set m" by auto
    with dist have mo: "map_of m (ID p) = Some p" by simp
    have "p = last [q \<leftarrow> ys. ID q = ID p \<and> ID q \<noteq> []]"
      using mo unfolding m_def map_of_add_page by (auto split: if_splits)
    moreover have "filter (\<lambda>q. ID q = ID p) (filter (\<lambda>p. ID p \<noteq> []) ys) =
        [q \<leftarrow> ys. ID q = ID p \<and> ID q \<noteq> []]"
      by (simp add: conj_commute)
    ultimately show ?thesis by simp
  qed
  have d: "distinct (map ID (map snd m))"
    unfolding ids by (rule dist)
  have "ID ` set (map snd m) = set (map ID (map snd m))"
    by (simp only: set_map)
  also have "\<dots> = fst ` set m"
    unfolding ids by (simp only: set_map)
  finally have i: "ID ` set (map snd m) = ID ` set (filter (\<lambda>p. ID p \<noteq> []) ys)"
    using keys by simp
  show ?thesis
    unfolding dedup_of_def m_def [symmetric]
    using d i len lww by blast
qed

lemma pages_yield_ids:
  "p \<in> set (pages_yield (scrapePage client) url fetched) \<Longrightarrow> ID p \<noteq> []"
proof -
  assume "p \<in> set (pages_yield (scrapePage client) url fetched)"
  then obtain u ps where "scrapePage client u = Inr ps" "p \<in> set ps"
    by (blast dest: pages_yield_scraped)
  then obtain t where "p \<in> set (extract_properties t)"
    by (auto dest: scrapePage_Inr)
  then show ?thesis by (rule extracted_facts)
qed

text \<open>
  C5: when the crawl succeeds, its result holds exactly one record per distinct
  identifier among the records that the fetched pages yielded, and the record that
  survives for an identifier is the last one yielded with it, that is the one of
  the latest page (\<open>dedup_of\<close>). The loop skips a record whose identifier is empty;
  \<open>scrapePage\<close> yields none, so for \<open>ScrapeNeighborhood\<close> the statement is about all
  the records yielded.
\<close>

theorem crawl_dedup_last_write_wins:
  "(ScrapeNeighborhood_with scrape city state neighborhood status = (fetched, Inr props) \<longrightarrow>
      dedup_of (filter (\<lambda>p. ID p \<noteq> [])
                  (pages_yield scrape (page_url city state neighborhood status) fetched)) props) \<and>
   (ScrapeNeighborhood client city state neighborhood status = (fetched, Inr props) \<longrightarrow>
      dedup_of (pages_yield (scrapePage client) (page_url city state neighborhood status) fetched)
        props)"
proof (intro conjI impI)
  assume "ScrapeNeighborhood_with scrape city state neighborhood status = (fetched, Inr props)"
  from crawl_result [OF this] show "dedup_of (filter (\<lambda>p. ID p \<noteq> [])
      (pages_yield scrape (page_url city state neighborhood status) fetched)) props"
    by (simp add: dedup_add_page)
next
  assume "ScrapeNeighborhood client city state neighborhood status = (fetched, Inr props)"
  from crawl_result [OF this [unfolded ScrapeNeighborhood_def]]
  have "dedup_of (filter (\<lambda>p. ID p \<noteq> [])
      (pages_yield (scrapePage client) (page_url city state neighborhood status) fetched)) props"
    by (simp add: dedup_add_page)
  moreover have "filter (\<lambda>p. ID p \<noteq> [])
      (pages_yield (scrapePage client) (page_url city state neighborhood status) fetched) =
      pages_yield (scrapePage client) (page_url city state neighborhood status) fetched"
    by (simp add: filter_id_conv pages_yield_ids)
  ultimately show "dedup_of
      (pages_yield (scrapePage client) (page_url city state neighborhood status) fetched) props"
    by simp
qed

lemma mock_overlap_crawl:
  "ScrapeNeighborhood_with mock_overlap ''honolulu'' ''hi'' ''manoa'' ''sold'' =
     ([1, 2], Inr [rec_a, rec_b'])"
  by code_simp

lemma mock_overlap_yield:
  "pages_yield mock_overlap (page_url ''honolulu'' ''hi'' ''manoa'' ''sold'') [1, 2] =
     replicate 19 rec_a @ [rec_b, rec_b']"
  by code_simp

lemma ex_yield:
  "pages_yield (scrapePage ex_client) (page_url ''honolulu'' ''hi'' ''manoa'' ''sold'') [1] =
     [ex_record]"
  by (simp add: pages_yield_def scrapePage_def ex_client_def ex_doc_def ex_page)

theorem crawl_dedup_last_write_wins_witness:
  "ScrapeNeighborhood_with mock_overlap ''honolulu'' ''hi'' ''manoa'' ''sold'' =
     ([1, 2], Inr [rec_a, rec_b']) \<and>
   dedup_of (filter (\<lambda>p. ID p \<noteq> []) (replicate 19 rec_a @ [rec_b, rec_b'])) [rec_a, rec_b'] \<and>
   ScrapeNeighborhood ex_client ''honolulu'' ''hi'' ''manoa'' ''sold'' = ([1], Inr [ex_record]) \<and>
   dedup_of [ex_record] [ex_record]"
  using crawl_dedup_last_write_wins [of mock_overlap "''honolulu''" "''hi''" "''manoa''" "''sold''"
      "[1, 2]" "[rec_a, rec_b']" ex_client]
    crawl_dedup_last_write_wins [of mock_overlap "''honolulu''" "''hi''" "''manoa''" "''sold''"
      "[1]" "[ex_record]" ex_client]
    mock_overlap_crawl ex_crawl [of "''honolulu''" "''hi''" "''manoa''" "''sold''"]
  by (simp only: mock_overlap_yield ex_yield simp_thms)

lemma with_ID_keeps:
  "PricePerSqFt (with_ID p) = PricePerSqFt p" "Price (with_ID p) = Price p"
  "SquareFeet (with_ID p) = SquareFeet p" "Address (with_ID p) = Address p"
  "City (with_ID p) = City p" "State (with_ID p) = State p" "ZipCode (with_ID p) = ZipCode p"
  "ID (with_ID p) = generatePropertyID (Address p) (City p)"
  by (simp_all add: with_ID_def)

lemma redfin_url_fields_keeps:
  "PricePerSqFt (redfin_url_fields url p) = PricePerSqFt p"
  "Price (redfin_url_fields url p) = Price p"
  by (simp_all add: redfin_url_fields_def Let_def split: option.splits)

lemma slug_fields_keeps:
  "PricePerSqFt (slug_fields url p) = PricePerSqFt p"
  "Price (slug_fields url p) = Price p"
  by (simp_all add: slug_fields_def Let_def split: option.splits prod.splits)

lemma redfin_steps_keep:
  "PricePerSqFt (redfin_text_fields t p) = PricePerSqFt p"
  "PricePerSqFt (redfin_parking t p) = PricePerSqFt p"
  "PricePerSqFt (redfin_description doc p) = PricePerSqFt p"
  "PricePerSqFt (foldl feature_fields p fs) = PricePerSqFt p"
  "PricePerSqFt (redfin_neighborhood p) = PricePerSqFt p"
  "PricePerSqFt (foldl agent_fields p as) = PricePerSqFt p"
  "PricePerSqFt (redfin_propertyType t p) = PricePerSqFt p"
proof -
  show "PricePerSqFt (redfin_text_fields t p) = PricePerSqFt p"
    by (simp add: redfin_text_fields_def on_match_keeps)
  show "PricePerSqFt (redfin_parking t p) = PricePerSqFt p"
    by (simp add: redfin_parking_def split: list.splits)
  show "PricePerSqFt (redfin_description doc p) = PricePerSqFt p"
    by (simp add: redfin_description_def Let_def on_match_keeps
        foldl_sel [where sel = PricePerSqFt])
  show "PricePerSqFt (foldl feature_fields p fs) = PricePerSqFt p"
    by (rule foldl_sel) (simp add: feature_fields_def Let_def)
  show "PricePerSqFt (redfin_neighborhood p) = PricePerSqFt p"
    by (simp add: redfin_neighborhood_def)
  show "PricePerSqFt (foldl agent_fields p as) = PricePerSqFt p"
    by (rule foldl_sel) (simp add: agent_fields_def Let_def)
  show "PricePerSqFt (redfin_propertyType t p) = PricePerSqFt p"
    by (simp add: redfin_propertyType_def Let_def)
qed

lemma redfin_fields_ok: "PricePerSqFt p = 0 \<Longrightarrow> ppsf_ok (redfin_fields doc p)"
  unfolding redfin_fields_def Let_def
  by (rule set_PricePerSqFt_ok) (simp add: with_ID_keeps redfin_steps_keep)

lemma detail_steps_keep:
  "PricePerSqFt (detail_text_fields t p) = PricePerSqFt p"
  "PricePerSqFt (detail_propertyType t p) = PricePerSqFt p"
  by (simp_all add: detail_text_fields_def detail_propertyType_def Let_def on_match_keeps)

lemma detail_fields_ok: "PricePerSqFt p = 0 \<Longrightarrow> ppsf_ok (detail_fields doc p)"
  unfolding detail_fields_def Let_def
  by (rule set_PricePerSqFt_ok)
    (simp add: with_ID_keeps detail_steps_keep foldl_sel [where sel = PricePerSqFt]
      split: option.splits)

lemma partial_ok: "PricePerSqFt p = 0 \<Longrightarrow> Price p = 0 \<Longrightarrow> ppsf_ok (with_ID p)"
  by (simp add: ppsf_ok_def with_ID_keeps)

lemma zero_sold: "PricePerSqFt (zero_Property\<lparr>Status := s\<rparr>) = 0"
  "Price (zero_Property\<lparr>Status := s\<rparr>) = 0"
  by (simp_all add: zero_Property_def)

lemma scrapeRedfinProperty_ok:
  "scrapeRedfinProperty client url = Inr p \<Longrightarrow> ppsf_ok p"
  by (auto simp: scrapeRedfinProperty_def Let_def redfin_fields_ok partial_ok
      redfin_url_fields_keeps zero_sold split: Outcome.splits Body.splits if_splits)

lemma ScrapePropertyDetail_ok:
  assumes "ScrapePropertyDetail client url = Inr p"
  shows "ppsf_ok p"
proof (cases "Contains url ''redfin.com''")
  case True
  with assms show ?thesis by (simp add: ScrapePropertyDetail_def scrapeRedfinProperty_ok)
next
  case False
  define q where "q = slug_fields url (zero_Property\<lparr>Status := ''sold''\<rparr>)"
  have q: "PricePerSqFt q = 0" "Price q = 0"
    by (simp_all add: q_def slug_fields_keeps zero_sold)
  define found where "found =
     (if ToLower (City q) = ''honolulu'' \<and> ToLower (State q) = ''hi''
      then (case snd (ScrapeManoa client ''sold'') of
              Inl err \<Rightarrow> None
            | Inr soldProperties \<Rightarrow>
                List.find (\<lambda>soldProp. Contains (ToLower (Address soldProp)) (ToLower (Address q)))
                  soldProperties)
      else None)"
  have found_ok: "ppsf_ok s" if "found = Some s" for s
  proof -
    from that obtain soldProperties where sp: "snd (ScrapeManoa client ''sold'') = Inr soldProperties"
      and "List.find (\<lambda>soldProp. Contains (ToLower (Address soldProp)) (ToLower (Address q)))
             soldProperties = Some s"
      by (auto simp: found_def split: if_splits sum.splits)
    then have "s \<in> set soldProperties"
      by (auto simp: find_Some_iff)
    moreover from sp have "ScrapeNeighborhood client ''Honolulu'' ''HI'' ''manoa'' ''sold'' =
        (fst (ScrapeManoa client ''sold''), Inr soldProperties)"
      by (simp add: ScrapeManoa_def prod_eq_iff)
    ultimately obtain t where "s \<in> set (extract_properties t)"
      by (blast dest: ScrapeNeighborhood_extracted)
    then show ?thesis by (rule extracted_facts)
  qed
  from assms False have "(case found of
        Some soldProp \<Rightarrow> Inr soldProp
      | None \<Rightarrow>
          (case client url of
             RequestError err \<Rightarrow> Inl err
           | TransportError err \<Rightarrow> Inr (with_ID q)
           | Response statusCode status body \<Rightarrow>
               if statusCode \<noteq> 200 then Inr (with_ID q)
               else (case body of
                       Unparseable err \<Rightarrow> Inl err
                     | Parsed doc \<Rightarrow> Inr (detail_fields doc q)))) = Inr p"
    unfolding ScrapePropertyDetail_def Let_def q_def [symmetric] found_def [symmetric]
    by simp
  then show ?thesis
    using found_ok q
    by (auto simp: partial_ok detail_fields_ok
        split: option.splits Outcome.splits Body.splits if_splits)
qed

lemma ScrapeNeighborhood_ok:
  assumes "ScrapeNeighborhood client city state neighborhood status = (fetched, Inr props)"
    and "p \<in> set props"
  shows "ppsf_ok p"
proof -
  from assms obtain t where "p \<in> set (extract_properties t)"
    by (blast dest: ScrapeNeighborhood_extracted)
  then show ?thesis by (rule extracted_facts)
qed

lemma candidates_ok: "p \<in> set (candidates pageText) \<Longrightarrow> ppsf_ok p"
  by (auto simp: candidates_iff dest: candidate_facts(1))

lemma redfin_url_contains: "Contains redfin_url ''redfin.com''"
  unfolding redfin_url_def by code_simp

lemma redfin_url_ex:
  "with_ID (redfin_url_fields redfin_url (zero_Property\<lparr>Status := ''sold''\<rparr>)) = redfin_partial"
  unfolding redfin_url_def redfin_partial_def by code_simp

lemma redfin_page_ex:
  "redfin_fields (ex_doc ''$9 4sqft'') (redfin_url_fields redfin_url (zero_Property\<lparr>Status := ''sold''\<rparr>)) =
     redfin_partial\<lparr>Price := 9, SquareFeet := 4, PricePerSqFt := 2, PropertyType := ''house'',
       Neighborhood := ''Manoa''\<rparr>"
  unfolding redfin_url_def redfin_partial_def ex_doc_def by code_simp

text \<open>
  C7: in every record that an extractor returns, \<open>PricePerSqFt\<close> is \<open>Price\<close> divided
  by \<open>SquareFeet\<close> (integer division) when both are strictly positive, and is unset
  (0) otherwise (\<open>ppsf_ok\<close>): for the candidates and the output of the page extractor,
  for the result of the crawl and for both grammars of the detail-page extractor.
  A price of 1,000,000 and an area of 2,000 give 500; with an area of 0 the field
  stays unset.
\<close>

theorem price_per_area:
  "(\<forall>p \<in> set (candidates pageText). ppsf_ok p) \<and>
   (\<forall>p \<in> set (extract_properties pageText). ppsf_ok p) \<and>
   (\<forall>fetched props.
      ScrapeNeighborhood client city state neighborhood status = (fetched, Inr props) \<longrightarrow>
      (\<forall>p \<in> set props. ppsf_ok p)) \<and>
   (\<forall>p. scrapeRedfinProperty client url = Inr p \<longrightarrow> ppsf_ok p) \<and>
   (\<forall>p. ScrapePropertyDetail client url = Inr p \<longrightarrow> ppsf_ok p) \<and>
   PricePerSqFt (set_PricePerSqFt (zero_Property\<lparr>Price := 1000000, SquareFeet := 2000\<rparr>)) = 500 \<and>
   PricePerSqFt (set_PricePerSqFt (zero_Property\<lparr>Price := 1000000, SquareFeet := 0\<rparr>)) = 0"
proof -
  have "ppsf_ok p" if "p \<in> set (extract_properties pageText)" for p
    using that by (rule extracted_facts)
  moreover have "PricePerSqFt (set_PricePerSqFt (zero_Property\<lparr>Price := 1000000, SquareFeet := 2000\<rparr>)) = 500"
    "PricePerSqFt (set_PricePerSqFt (zero_Property\<lparr>Price := 1000000, SquareFeet := 0\<rparr>)) = 0"
    by (simp_all add: set_PricePerSqFt_def zero_Property_def)
  ultimately show ?thesis
    using candidates_ok ScrapeNeighborhood_ok scrapeRedfinProperty_ok ScrapePropertyDetail_ok
    by blast
qed

theorem price_per_area_witness:
  "ex_record \<in> set (candidates ex_text) \<and> ex_record \<in> set (extract_properties ex_text) \<and>
   Price ex_record = 9 \<and> SquareFeet ex_record = 4 \<and> PricePerSqFt ex_record = 2 \<and>
   ppsf_ok ex_record \<and>
   ScrapeNeighborhood ex_client ''Honolulu'' ''HI'' ''manoa'' ''sold'' = ([1], Inr [ex_record]) \<and>
   scrapeRedfinProperty (client_200 ''$9 4sqft'') redfin_url =
     Inr (redfin_partial\<lparr>Price := 9, SquareFeet := 4, PricePerSqFt := 2,
            PropertyType := ''house'', Neighborhood := ''Manoa''\<rparr>) \<and>
   ppsf_ok (redfin_partial\<lparr>Price := 9, SquareFeet := 4, PricePerSqFt := 2,
              PropertyType := ''house'', Neighborhood := ''Manoa''\<rparr>) \<and>
   ScrapePropertyDetail client_403 redfin_url = Inr redfin_partial \<and>
   PricePerSqFt redfin_partial = 0 \<and> ppsf_ok redfin_partial"
proof -
  have a: "ex_record \<in> set (extract_properties ex_text)"
    by (simp add: ex_page)
  then have b: "ex_record \<in> set (candidates ex_text)"
    by (simp add: extract_properties_iff)
  have c: "scrapeRedfinProperty (client_200 ''$9 4sqft'') redfin_url =
     Inr (redfin_partial\<lparr>Price := 9, SquareFeet := 4, PricePerSqFt := 2,
            PropertyType := ''house'', Neighborhood := ''Manoa''\<rparr>)"
    by (simp add: scrapeRedfinProperty_def client_200_def redfin_page_ex)
  have d: "ScrapePropertyDetail client_403 redfin_url = Inr redfin_partial"
    by (simp add: ScrapePropertyDetail_def redfin_url_contains scrapeRedfinProperty_def
        client_403_def redfin_url_ex)
  have e: "PricePerSqFt redfin_partial = 0"
    by (simp add: redfin_partial_def zero_Property_def)
  from price_per_area [of ex_text ex_client "''Honolulu''" "''HI''" "''manoa''" "''sold''"
      redfin_url]
    price_per_area [of ex_text "client_200 ''$9 4sqft''" "''Honolulu''" "''HI''" "''manoa''"
      "''sold''" redfin_url]
    price_per_area [of ex_text client_403 "''Honolulu''" "''HI''" "''manoa''" "''sold''"
      redfin_url]
    a b c d e ex_crawl [of "''Honolulu''" "''HI''" "''manoa''" "''sold''"]
  show ?thesis by (simp add: ex_record_fields)
qed

lemma Split_nonempty: "Split s sep \<noteq> []"
  by (induction s) (auto split: list.splits)

lemma Split_append: "Split (pre @ sep # rest) sep = Split pre sep @ Split rest sep"
proof (induction pre)
  case Nil
  then show ?case by simp
next
  case (Cons x pre)
  then show ?case
    using Split_nonempty [of pre sep] by (auto split: list.splits)
qed

lemma first_index_append:
  "\<forall>x \<in> set xs. \<not> P x \<Longrightarrow>
     first_index P (xs @ ys) = map_option (\<lambda>j. length xs + j) (first_index P ys)"
proof (induction xs)
  case Nil
  show ?case by (cases "first_index P ys") simp_all
next
  case (Cons x xs)
  then show ?case by (cases "first_index P ys") simp_all
qed

lemma redfin_tail_Split:
  "Split ''HI/Honolulu/2819-Poelua-St-96822/home/88513618'' (CHR ''/'') = redfin_tail"
  unfolding redfin_tail_def by code_simp

lemma redfin_tail_state: "first_index (\<lambda>part. length part = 2 \<and> ToUpper part = part) redfin_tail = Some 0"
  unfolding redfin_tail_def by code_simp

lemma redfin_address_part:
  "LastIndex ''2819-Poelua-St-96822'' (CHR ''-'') = Some 14"
  "Join (map Title (Split (take 14 ''2819-Poelua-St-96822'') (CHR ''-''))) '' '' = ''2819 Poelua St''"
  "drop (14 + 1) ''2819-Poelua-St-96822'' = ''96822''"
  "generatePropertyID ''2819 Poelua St'' ''Honolulu'' = ''prop_2819poeluasthonolulu''"
  by code_simp+

lemma redfin_url_fields_general:
  assumes "\<forall>part \<in> set (Split pre (CHR ''/'')). \<not> (length part = 2 \<and> ToUpper part = part)"
  shows "with_ID (redfin_url_fields (pre @ ''/HI/Honolulu/2819-Poelua-St-96822/home/88513618'')
           (zero_Property\<lparr>Status := ''sold''\<rparr>)) = redfin_partial"
proof -
  define n where "n = length (Split pre (CHR ''/''))"
  have parts: "Split (pre @ ''/HI/Honolulu/2819-Poelua-St-96822/home/88513618'') (CHR ''/'') =
      Split pre (CHR ''/'') @ redfin_tail"
    using Split_append [of pre "CHR ''/''" "''HI/Honolulu/2819-Poelua-St-96822/home/88513618''"]
    by (simp add: redfin_tail_def)
  have idx: "first_index (\<lambda>part. length part = 2 \<and> ToUpper part = part)
      (Split pre (CHR ''/'') @ redfin_tail) = Some n"
    using first_index_append [OF assms, of redfin_tail] by (simp add: redfin_tail_state n_def)
  have nth: "(Split pre (CHR ''/'') @ redfin_tail) ! n = ''HI''"
    "(Split pre (CHR ''/'') @ redfin_tail) ! (n + 1) = ''Honolulu''"
    "(Split pre (CHR ''/'') @ redfin_tail) ! (n + 2) = ''2819-Poelua-St-96822''"
    "n + 1 < length (Split pre (CHR ''/'') @ redfin_tail)"
    "n + 2 < length (Split pre (CHR ''/'') @ redfin_tail)"
    by (simp_all add: n_def nth_append redfin_tail_def)
  have "redfin_url_fields (pre @ ''/HI/Honolulu/2819-Poelua-St-96822/home/88513618'')
      (zero_Property\<lparr>Status := ''sold''\<rparr>) =
      zero_Property\<lparr>Status := ''sold'', State := ''HI'', City := ''Honolulu'',
        Address := ''2819 Poelua St'', ZipCode := ''96822''\<rparr>"
    unfolding redfin_url_fields_def parts Let_def idx
    apply (simp only: nth if_True option.case redfin_address_part(1))
    apply (simp only: redfin_address_part(2,3))
    apply simp
    done
  then show ?thesis
    by (simp add: with_ID_def redfin_address_part(4) redfin_partial_def zero_Property_def)
qed

lemma redfin_url_fields_rule:
  assumes parts: "Split url (CHR ''/'') = before @ st # city # slug # rest"
    and before: "\<forall>part \<in> set before. \<not> (length part = 2 \<and> ToUpper part = part)"
    and st: "length st = 2" "ToUpper st = st"
    and dash: "LastIndex slug (CHR ''-'') = Some k" "0 < k"
  shows "redfin_url_fields url p =
    p\<lparr>State := st, City := city,
      Address := Join (map Title (Split (take k slug) (CHR ''-''))) '' '',
      ZipCode := drop (k + 1) slug\<rparr>"
proof -
  define n where "n = length before"
  have idx: "first_index (\<lambda>part. length part = 2 \<and> ToUpper part = part)
      (before @ st # city # slug # rest) = Some n"
    using first_index_append [OF before, of "st # city # slug # rest"] st by (simp add: n_def)
  have nth: "(before @ st # city # slug # rest) ! n = st"
    "(before @ st # city # slug # rest) ! (n + 1) = city"
    "(before @ st # city # slug # rest) ! (n + 2) = slug"
    "n + 1 < length (before @ st # city # slug # rest)"
    "n + 2 < length (before @ st # city # slug # rest)"
    by (simp_all add: n_def nth_append)
  show ?thesis
    unfolding redfin_url_fields_def parts Let_def idx
    by (simp only: nth if_True option.case dash)
qed

lemma redfin_non_200:
  assumes "Contains url ''redfin.com''" "client url = Response statusCode status body"
    "statusCode \<noteq> 200"
  shows "ScrapePropertyDetail client url =
    Inr (with_ID (redfin_url_fields url (zero_Property\<lparr>Status := ''sold''\<rparr>)))"
  using assms by (simp add: ScrapePropertyDetail_def scrapeRedfinProperty_def)

lemma generatePropertyID_nonempty: "generatePropertyID address city \<noteq> []"
  by (simp add: generatePropertyID_def Let_def)

text \<open>
  C1: for a second-site URL, a response with a status other than 200 still makes
  \<open>ScrapePropertyDetail\<close> return a record, without error, built from the URL alone.
  When the first part of the URL that has two bytes and equals its own upper-casing
  is \<open>state\<close>, followed by the parts \<open>city\<close> and \<open>slug\<close>, and the last hyphen of \<open>slug\<close>
  is at a position \<open>k > 0\<close>, the record has state \<open>state\<close>, city \<open>city\<close>, as address
  the hyphen-separated components of the first \<open>k\<close> bytes of \<open>slug\<close>, each in title
  case, joined by spaces, as postal code what follows the last hyphen, and the
  non-empty identifier that \<open>generatePropertyID\<close> makes of address and city. For a
  URL that ends in \<open>/HI/Honolulu/2819-Poelua-St-96822/home/88513618\<close>, with no such
  two-byte part before \<open>HI\<close>, this is the address \<open>2819 Poelua St\<close>, city \<open>Honolulu\<close>,
  state \<open>HI\<close>, postal code \<open>96822\<close> and identifier \<open>prop_2819poeluasthonolulu\<close>.
\<close>

theorem redfin_best_effort:
  "(Contains url ''redfin.com'' \<and>
    Split url (CHR ''/'') = before @ state # city # slug # rest \<and>
    (\<forall>part \<in> set before. \<not> (length part = 2 \<and> ToUpper part = part)) \<and>
    length state = 2 \<and> ToUpper state = state \<and>
    LastIndex slug (CHR ''-'') = Some k \<and> 0 < k \<and>
    client url = Response statusCode status body \<and> statusCode \<noteq> 200 \<longrightarrow>
    (\<exists>p. ScrapePropertyDetail client url = Inr p \<and>
         State p = state \<and> City p = city \<and>
         Address p = Join (map Title (Split (take k slug) (CHR ''-''))) '' '' \<and>
         ZipCode p = drop (k + 1) slug \<and>
         ID p = generatePropertyID (Address p) (City p) \<and> ID p \<noteq> [])) \<and>
   (url = pre @ ''/HI/Honolulu/2819-Poelua-St-96822/home/88513618'' \<and>
    Contains url ''redfin.com'' \<and>
    (\<forall>part \<in> set (Split pre (CHR ''/'')). \<not> (length part = 2 \<and> ToUpper part = part)) \<and>
    client url = Response statusCode status body \<and> statusCode \<noteq> 200 \<longrightarrow>
    (\<exists>p. ScrapePropertyDetail client url = Inr p \<and>
         Address p = ''2819 Poelua St'' \<and> City p = ''Honolulu'' \<and> State p = ''HI'' \<and>
         ZipCode p = ''96822'' \<and> ID p = ''prop_2819poeluasthonolulu'' \<and> ID p \<noteq> []))"
proof (intro conjI impI; elim conjE)
  assume c: "Contains url ''redfin.com''"
    and parts: "Split url (CHR ''/'') = before @ state # city # slug # rest"
    and before: "\<forall>part \<in> set before. \<not> (length part = 2 \<and> ToUpper part = part)"
    and st: "length state = 2" "ToUpper state = state"
    and dash: "LastIndex slug (CHR ''-'') = Some k" "0 < k"
    and r: "client url = Response statusCode status body" "statusCode \<noteq> 200"
  define q where "q = with_ID (redfin_url_fields url (zero_Property\<lparr>Status := ''sold''\<rparr>))"
  have "ScrapePropertyDetail client url = Inr q"
    unfolding q_def using c r by (rule redfin_non_200)
  moreover have "State q = state" "City q = city"
    "Address q = Join (map Title (Split (take k slug) (CHR ''-''))) '' ''"
    "ZipCode q = drop (k + 1) slug" "ID q = generatePropertyID (Address q) (City q)"
    unfolding q_def redfin_url_fields_rule [OF parts before st dash]
    by (simp_all add: with_ID_def)
  moreover have "ID q \<noteq> []"
    unfolding q_def by (simp add: with_ID_def generatePropertyID_nonempty)
  ultimately show "\<exists>p. ScrapePropertyDetail client url = Inr p \<and>
         State p = state \<and> City p = city \<and>
         Address p = Join (map Title (Split (take k slug) (CHR ''-''))) '' '' \<and>
         ZipCode p = drop (k + 1) slug \<and>
         ID p = generatePropertyID (Address p) (City p) \<and> ID p \<noteq> []"
    by blast
next
  assume url: "url = pre @ ''/HI/Honolulu/2819-Poelua-St-96822/home/88513618''"
    and c: "Contains url ''redfin.com''"
    and pre: "\<forall>part \<in> set (Split pre (CHR ''/'')). \<not> (length part = 2 \<and> ToUpper part = part)"
    and r: "client url = Response statusCode status body" "statusCode \<noteq> 200"
  from redfin_non_200 [of url client, OF c r]
  have "ScrapePropertyDetail client url = Inr redfin_partial"
    unfolding url using redfin_url_fields_general [OF pre] by simp
  then show "\<exists>p. ScrapePropertyDetail client url = Inr p \<and>
        Address p = ''2819 Poelua St'' \<and> City p = ''Honolulu'' \<and> State p = ''HI'' \<and>
        ZipCode p = ''96822'' \<and> ID p = ''prop_2819poeluasthonolulu'' \<and> ID p \<noteq> []"
    by (simp add: redfin_partial_def zero_Property_def)
qed

lemma redfin_prefix_ex:
  "list_all (\<lambda>part. \<not> (length part = 2 \<and> ToUpper part = part))
     (Split ''https://www.redfin.com'' (CHR ''/''))"
  by code_simp

lemma redfin_url_parts:
  "Split redfin_url (CHR ''/'') =
     [''https:'', '''', ''www.redfin.com''] @
     ''HI'' # ''Honolulu'' # ''2819-Poelua-St-96822'' # [''home'', ''88513618'']"
  "Split fresno_url (CHR ''/'') =
     [''https:'', '''', ''www.redfin.com''] @ ''CA'' # ''Fresno'' # ''1-main-st-93650'' # [''home'', ''7'']"
  "list_all (\<lambda>part. \<not> (length part = 2 \<and> ToUpper part = part))
     [''https:'', '''', ''www.redfin.com'']"
  "ToUpper ''HI'' = ''HI''" "ToUpper ''CA'' = ''CA''"
  "LastIndex ''2819-Poelua-St-96822'' (CHR ''-'') = Some 14"
  "LastIndex ''1-main-st-93650'' (CHR ''-'') = Some 9"
  "Contains fresno_url ''redfin.com''"
  unfolding redfin_url_def fresno_url_def by code_simp+

lemma fresno_url_ex:
  "ScrapePropertyDetail client_403 fresno_url = Inr fresno_partial"
  unfolding client_403_def fresno_url_def fresno_partial_def ex_doc_def by code_simp

theorem redfin_best_effort_witness:
  "Contains redfin_url ''redfin.com'' \<and>
   Split redfin_url (CHR ''/'') =
     [''https:'', '''', ''www.redfin.com''] @
     ''HI'' # ''Honolulu'' # ''2819-Poelua-St-96822'' # [''home'', ''88513618''] \<and>
   list_all (\<lambda>part. \<not> (length part = 2 \<and> ToUpper part = part))
     [''https:'', '''', ''www.redfin.com''] \<and>
   length ''HI'' = 2 \<and> ToUpper ''HI'' = ''HI'' \<and>
   LastIndex ''2819-Poelua-St-96822'' (CHR ''-'') = Some 14 \<and> (0 :: nat) < 14 \<and>
   client_403 redfin_url = Response 403 ''403 Forbidden'' (Parsed (ex_doc ''Access denied'')) \<and>
   (403 :: nat) \<noteq> 200 \<and>
   redfin_url = ''https://www.redfin.com'' @ ''/HI/Honolulu/2819-Poelua-St-96822/home/88513618'' \<and>
   list_all (\<lambda>part. \<not> (length part = 2 \<and> ToUpper part = part))
     (Split ''https://www.redfin.com'' (CHR ''/'')) \<and>
   ScrapePropertyDetail client_403 redfin_url = Inr redfin_partial \<and>
   Address redfin_partial = ''2819 Poelua St'' \<and> City redfin_partial = ''Honolulu'' \<and>
   State redfin_partial = ''HI'' \<and> ZipCode redfin_partial = ''96822'' \<and>
   ID redfin_partial = ''prop_2819poeluasthonolulu'' \<and>
   Contains fresno_url ''redfin.com'' \<and>
   Split fresno_url (CHR ''/'') =
     [''https:'', '''', ''www.redfin.com''] @ ''CA'' # ''Fresno'' # ''1-main-st-93650'' # [''home'', ''7''] \<and>
   length ''CA'' = 2 \<and> ToUpper ''CA'' = ''CA'' \<and>
   LastIndex ''1-main-st-93650'' (CHR ''-'') = Some 9 \<and> (0 :: nat) < 9 \<and>
   ScrapePropertyDetail client_403 fresno_url = Inr fresno_partial \<and>
   Address fresno_partial = ''1 Main St'' \<and> City fresno_partial = ''Fresno'' \<and>
   State fresno_partial = ''CA'' \<and> ZipCode fresno_partial = ''93650'' \<and>
   ID fresno_partial = ''prop_1mainstfresno''"
proof -
  have u: "redfin_url = ''https://www.redfin.com'' @ ''/HI/Honolulu/2819-Poelua-St-96822/home/88513618''"
    by (simp add: redfin_url_def)
  have c: "client_403 u = Response 403 ''403 Forbidden'' (Parsed (ex_doc ''Access denied''))" for u
    by (simp add: client_403_def)
  have b: "\<forall>part \<in> set [''https:'', '''', ''www.redfin.com''].
      \<not> (length part = 2 \<and> ToUpper part = part)"
    using redfin_url_parts(3) by (simp only: list_all_iff)
  have p: "\<forall>part \<in> set (Split ''https://www.redfin.com'' (CHR ''/'')).
      \<not> (length part = 2 \<and> ToUpper part = part)"
    using redfin_prefix_ex by (simp only: list_all_iff)
  have n: "(403 :: nat) \<noteq> 200" "(0 :: nat) < 14" "(0 :: nat) < 9"
    "length ''HI'' = 2" "length ''CA'' = 2"
    by simp_all
  note h = redfin_best_effort [of redfin_url "[''https:'', '''', ''www.redfin.com'']" "''HI''"
      "''Honolulu''" "''2819-Poelua-St-96822''" "[''home'', ''88513618'']" 14 client_403 403
      "''403 Forbidden''" "Parsed (ex_doc ''Access denied'')" "''https://www.redfin.com''"]
  note f = redfin_best_effort [of fresno_url "[''https:'', '''', ''www.redfin.com'']" "''CA''"
      "''Fresno''" "''1-main-st-93650''" "[''home'', ''7'']" 9 client_403 403
      "''403 Forbidden''" "Parsed (ex_doc ''Access denied'')" "''https://www.redfin.com''"]
  from h [THEN conjunct1] redfin_url_contains redfin_url_parts(1,4,6) b n c
  obtain q where q: "ScrapePropertyDetail client_403 redfin_url = Inr q"
    "State q = ''HI''" "City q = ''Honolulu''"
    "Address q = Join (map Title (Split (take 14 ''2819-Poelua-St-96822'') (CHR ''-''))) '' ''"
    "ZipCode q = drop (14 + 1) ''2819-Poelua-St-96822''"
    by blast
  from h [THEN conjunct2] u redfin_url_contains p n c
  obtain q' where q': "ScrapePropertyDetail client_403 redfin_url = Inr q'"
    "ID q' = ''prop_2819poeluasthonolulu''"
    by blast
  from f [THEN conjunct1] redfin_url_parts(2,5,7,8) b n c
  obtain s where s: "ScrapePropertyDetail client_403 fresno_url = Inr s"
    "State s = ''CA''" "City s = ''Fresno''"
    "Address s = Join (map Title (Split (take 9 ''1-main-st-93650'') (CHR ''-''))) '' ''"
    "ZipCode s = drop (9 + 1) ''1-main-st-93650''"
    "ID s = generatePropertyID (Address s) (City s)"
    by blast
  have d: "ScrapePropertyDetail client_403 redfin_url = Inr redfin_partial"
    by (simp add: ScrapePropertyDetail_def redfin_url_contains scrapeRedfinProperty_def
        client_403_def redfin_url_ex)
  have e: "Join (map Title (Split (take 9 ''1-main-st-93650'') (CHR ''-''))) '' '' = ''1 Main St''"
    "generatePropertyID ''1 Main St'' ''Fresno'' = ''prop_1mainstfresno''"
    by code_simp+
  from q q' d have 1: "q = redfin_partial" "q' = redfin_partial"
    by simp_all
  from s fresno_url_ex have 2: "s = fresno_partial"
    by simp
  have 3: "Address redfin_partial = ''2819 Poelua St''" "City redfin_partial = ''Honolulu''"
    "State redfin_partial = ''HI''" "ZipCode redfin_partial = ''96822''"
    "ID redfin_partial = ''prop_2819poeluasthonolulu''"
    using q(2-5) q'(2) unfolding 1 redfin_address_part(2,3) by simp_all
  have a4: "Address fresno_partial = ''1 Main St''"
    using s(4) unfolding 2 e(1) .
  have c4: "City fresno_partial = ''Fresno''" "State fresno_partial = ''CA''"
    using s(2,3) unfolding 2 by simp_all
  have z4: "ZipCode fresno_partial = ''93650''"
    using s(5) unfolding 2 by simp
  have i4: "ID fresno_partial = ''prop_1mainstfresno''"
    using s(6) unfolding 2 a4 c4 e(2) .
  note 4 = a4 c4 z4 i4
  from redfin_url_contains redfin_url_parts redfin_prefix_ex n c u d fresno_url_ex 3 4
  show ?thesis
    by simp
qed

section \<open>Properties of the statistics extractor\<close>

lemma in_ranges_digit [simp]: "in_ranges c [(CHR ''0'', CHR ''9'')] = is_digit c"
  by (simp add: in_ranges_def is_digit_def)










































text \<open>
  C9: the statistics extractors do not read the status code of the response. On a
  client that answers every request with status 403 and the body
  ``Access denied'', \<open>ScrapeNeighborhoodStats\<close> and \<open>ScrapeMarketStats\<close> return a
  statistics record (all metrics zero) and no error, where \<open>scrapePage\<close> on the
  same client fails with ``HTTP 403: 403 Forbidden''.
\<close>

theorem stats_ignore_status:
  "ScrapeNeighborhoodStats client_403 ''2025-01-01T00:00:00Z'' ''Honolulu'' ''HI'' ''manoa'' =
     Inr (zero_MarketStats\<lparr>Area := ''manoa, Honolulu, HI'',
            Timestamp := ''2025-01-01T00:00:00Z''\<rparr>) \<and>
   ScrapeMarketStats client_403 ''2025-01-01T00:00:00Z'' ''Honolulu'' ''HI'' =
     Inr (zero_MarketStats\<lparr>Area := ''Honolulu, HI'', Timestamp := ''2025-01-01T00:00:00Z''\<rparr>) \<and>
   scrapePage client_403 ''https://www.homes.com/honolulu-hi/manoa-neighborhood/sold/'' =
     Inl ''HTTP 403: 403 Forbidden''"
  by code_simp

end
